theory Spec2Isabelle
  imports Main
begin

section \<open>CalDAV bridge (app.py): strings\<close>

text \<open>
  Python \<open>str\<close> values are modelled as \<open>string\<close>, a \<open>char\<close> standing for the code point
  of its number: the model covers the strings of code points below 256. On them the
  functions below compute what \<open>str.strip\<close>, \<open>str.rstrip\<close>, \<open>str.startswith\<close>,
  \<open>str.replace\<close> and \<open>str.join\<close> compute, and \<open>upper\<close> computes \<open>str.upper\<close> except at
  U+00B5 and U+00FF, whose upper case lies beyond code point 255.
\<close>

definition LF :: char where "LF = CHR 0x0A"
definition CR :: char where "CR = CHR 0x0D"
definition BACKSLASH :: char where "BACKSLASH = CHR 0x5C"
definition CRLF :: string where "CRLF = [CR, LF]"

text \<open>
  The code points below 256 for which \<open>str.isspace\<close> holds, which are the ones \<open>str.strip\<close>
  removes: TAB, LF, VT, FF, CR, FS, GS, RS, US, SP, NEL (U+0085) and NBSP (U+00A0).
\<close>

definition is_space :: "char \<Rightarrow> bool" where
  "is_space c \<longleftrightarrow> c \<in> set [CHR 0x09, CHR 0x0A, CHR 0x0B, CHR 0x0C, CHR 0x0D,
                             CHR 0x1C, CHR 0x1D, CHR 0x1E, CHR 0x1F, CHR 0x20,
                             CHR 0x85, CHR 0xA0]"

definition lstrip :: "string \<Rightarrow> string" where
  "lstrip s = dropWhile is_space s"

definition rstrip :: "string \<Rightarrow> string" where
  "rstrip s = rev (dropWhile is_space (rev s))"

definition strip :: "string \<Rightarrow> string" where
  "strip s = rstrip (lstrip s)"

text \<open>\<open>s.rstrip(chars)\<close>: drop trailing characters that occur in \<open>chars\<close>.\<close>

definition rstrip_chars :: "string \<Rightarrow> string \<Rightarrow> string" where
  "rstrip_chars chars s = rev (dropWhile (\<lambda>c. c \<in> set chars) (rev s))"

text \<open>
  \<open>str.upper\<close> on the code points below 256: a to z, the Latin-1 lower-case letters U+00E0 to
  U+00FE (U+00F7, the division sign, apart), and the sharp s U+00DF, which becomes \<open>SS\<close>.
  Every other code point is its own upper case, but for U+00B5 and U+00FF: theirs (U+039C and
  U+0178) are no \<open>char\<close>, the table leaves them out, and \<open>upper_in_range\<close> tells the strings
  that hold neither.
\<close>

definition upper_table :: "(char \<times> string) list" where
  "upper_table =
     [ (CHR ''a'', ''A''), (CHR ''b'', ''B''), (CHR ''c'', ''C''), (CHR ''d'', ''D''), (CHR ''e'', ''E''),
       (CHR ''f'', ''F''), (CHR ''g'', ''G''), (CHR ''h'', ''H''), (CHR ''i'', ''I''), (CHR ''j'', ''J''),
       (CHR ''k'', ''K''), (CHR ''l'', ''L''), (CHR ''m'', ''M''), (CHR ''n'', ''N''), (CHR ''o'', ''O''),
       (CHR ''p'', ''P''), (CHR ''q'', ''Q''), (CHR ''r'', ''R''), (CHR ''s'', ''S''), (CHR ''t'', ''T''),
       (CHR ''u'', ''U''), (CHR ''v'', ''V''), (CHR ''w'', ''W''), (CHR ''x'', ''X''), (CHR ''y'', ''Y''),
       (CHR ''z'', ''Z''),
       (CHR 0xDF, ''SS''),
       (CHR 0xE0, [CHR 0xC0]), (CHR 0xE1, [CHR 0xC1]), (CHR 0xE2, [CHR 0xC2]), (CHR 0xE3, [CHR 0xC3]),
       (CHR 0xE4, [CHR 0xC4]), (CHR 0xE5, [CHR 0xC5]), (CHR 0xE6, [CHR 0xC6]), (CHR 0xE7, [CHR 0xC7]),
       (CHR 0xE8, [CHR 0xC8]), (CHR 0xE9, [CHR 0xC9]), (CHR 0xEA, [CHR 0xCA]), (CHR 0xEB, [CHR 0xCB]),
       (CHR 0xEC, [CHR 0xCC]), (CHR 0xED, [CHR 0xCD]), (CHR 0xEE, [CHR 0xCE]), (CHR 0xEF, [CHR 0xCF]),
       (CHR 0xF0, [CHR 0xD0]), (CHR 0xF1, [CHR 0xD1]), (CHR 0xF2, [CHR 0xD2]), (CHR 0xF3, [CHR 0xD3]),
       (CHR 0xF4, [CHR 0xD4]), (CHR 0xF5, [CHR 0xD5]), (CHR 0xF6, [CHR 0xD6]), (CHR 0xF8, [CHR 0xD8]),
       (CHR 0xF9, [CHR 0xD9]), (CHR 0xFA, [CHR 0xDA]), (CHR 0xFB, [CHR 0xDB]), (CHR 0xFC, [CHR 0xDC]),
       (CHR 0xFD, [CHR 0xDD]), (CHR 0xFE, [CHR 0xDE]) ]"

definition upper_char :: "char \<Rightarrow> string" where
  "upper_char c = (case map_of upper_table c of Some u \<Rightarrow> u | None \<Rightarrow> [c])"

definition upper :: "string \<Rightarrow> string" where
  "upper s = concat (map upper_char s)"


text \<open>\<open>s.startswith(p)\<close>, and \<open>s.startswith((p1, p2, ...))\<close> for a tuple of prefixes.\<close>

fun startswith :: "string \<Rightarrow> string \<Rightarrow> bool" where
  "startswith s [] = True"
| "startswith [] (p # ps) = False"
| "startswith (c # cs) (p # ps) = (c = p \<and> startswith cs ps)"

definition startswith_any :: "string \<Rightarrow> string list \<Rightarrow> bool" where
  "startswith_any s ps = list_ex (startswith s) ps"

text \<open>
  \<open>s.replace(old, new)\<close>: the occurrences of \<open>old\<close> are found from the left and do not
  overlap; with an empty \<open>old\<close>, \<open>new\<close> is put before every character and at the end.
\<close>

function replace :: "string \<Rightarrow> string \<Rightarrow> string \<Rightarrow> string" where
  "replace old new s =
     (if old = [] then new @ concat (map (\<lambda>c. c # new) s)
      else if s = [] then []
      else if startswith s old then new @ replace old new (drop (length old) s)
      else hd s # replace old new (tl s))"
  by pat_completeness auto
termination
  by (relation "measure (\<lambda>(old, new, s). length s)") auto

declare replace.simps [simp del]

text \<open>\<open>sep.join(lines)\<close>.\<close>

fun join :: "string \<Rightarrow> string list \<Rightarrow> string" where
  "join sep [] = []"
| "join sep [l] = l"
| "join sep (l # m # ls) = l @ sep @ join sep (m # ls)"

text \<open>\<open>a or b\<close> on strings and on optional strings: the first operand unless it is falsy.\<close>

definition str_or :: "string \<Rightarrow> string \<Rightarrow> string" where
  "str_or a b = (if a = [] then b else a)"

definition opt_or :: "string option \<Rightarrow> string \<Rightarrow> string" where
  "opt_or a b = (case a of None \<Rightarrow> b | Some s \<Rightarrow> str_or s b)"

section \<open>Configuration, errors, transport\<close>

text \<open>The module-level configuration, read once from the environment.\<close>

record config =
  BASE :: string
  APPLE_ID :: "string option"
  APPLE_PW :: "string option"
  API_KEY :: "string option"

text \<open>
  \<open>BASE = os.environ.get("BASE_URL", "https://caldav.icloud.com").rstrip("/")\<close> and the three
  \<open>os.environ.get\<close> calls, from an environment given as a map.
\<close>

definition load_config :: "(string \<rightharpoonup> string) \<Rightarrow> config" where
  "load_config env =
     \<lparr> BASE = rstrip_chars ''/''
                (case env ''BASE_URL'' of None \<Rightarrow> ''https://caldav.icloud.com'' | Some b \<Rightarrow> b),
       APPLE_ID = env ''APPLE_ID'',
       APPLE_PW = env ''APPLE_APP_PASSWORD'',
       API_KEY = env ''API_KEY'' \<rparr>"

text \<open>
  Every \<open>raise HTTPException(status, detail)\<close> of the source is one constructor, named after
  the place that raises; \<open>http_exception\<close> gives the status and the detail the source passes.
\<close>

datatype error =
    Misconfigured
  | InvalidKey
  | RequestFailed string
  | Upstream nat string
  | BadXML
  | NoPrincipal
  | NoHome
  | PutFailed string
  | PutRejected nat string
  | DeleteFailed string
  | DeleteRejected nat string

fun http_exception :: "error \<Rightarrow> nat \<times> string" where
  "http_exception Misconfigured = (500, ''Server misconfigured: APPLE_ID or APPLE_APP_PASSWORD missing'')"
| "http_exception InvalidKey = (401, ''Invalid API key'')"
| "http_exception (RequestFailed e) = (502, ''Upstream request failed: '' @ e)"
| "http_exception (Upstream st d) = (st, d)"
| "http_exception BadXML = (502, ''Failed to parse XML from iCloud'')"
| "http_exception NoPrincipal = (500, ''Could not parse principal href'')"
| "http_exception NoHome = (500, ''Could not parse calendar-home-set'')"
| "http_exception (PutFailed e) = (502, ''Upstream PUT failed: '' @ e)"
| "http_exception (PutRejected st d) = (st, d)"
| "http_exception (DeleteFailed e) = (502, ''Upstream DELETE failed: '' @ e)"
| "http_exception (DeleteRejected st d) = (st, d)"

text \<open>What \<open>requests\<close> is given, and the part of \<open>requests.Response\<close> the source reads
  (\<open>verb\<close> is the \<open>method\<close> argument, \<open>resp_text\<close> is \<open>r.text\<close>; \<open>data\<close> is the body as
  text, which \<open>create\<close> hands over in its UTF-8 encoding: the encoding maps different texts
  to different bytes and makes the byte 0x0A from LF only).\<close>

record request =
  verb :: string
  url :: string
  headers :: "(string \<times> string) list"
  data :: "string option"
  auth :: "string option \<times> string option"

record response =
  status_code :: nat
  resp_text :: string
  reason :: string

text \<open>
  The remote server and the network: given the requests sent so far and the next request,
  either a \<open>requests.RequestException\<close> (its message) or a response. Every operation takes
  the log of requests sent so far and returns it extended.
\<close>

type_synonym server = "request list \<Rightarrow> request \<Rightarrow> string + response"

definition ensure_env :: "config \<Rightarrow> error + unit" where
  "ensure_env cfg =
     (if opt_or (APPLE_ID cfg) [] = [] \<or> opt_or (APPLE_PW cfg) [] = [] then Inl Misconfigured
      else Inr ())"

definition require_key :: "config \<Rightarrow> string option \<Rightarrow> error + unit" where
  "require_key cfg x_api_key =
     (if opt_or (API_KEY cfg) [] \<noteq> [] \<and> x_api_key \<noteq> API_KEY cfg then Inl InvalidKey
      else Inr ())"

text \<open>\<open>h[k] = v\<close> and \<open>h.update(headers)\<close> on a dict kept in insertion order.\<close>

fun dict_set :: "string \<Rightarrow> string \<Rightarrow> (string \<times> string) list \<Rightarrow> (string \<times> string) list" where
  "dict_set k v [] = [(k, v)]"
| "dict_set k v ((k', v') # kvs) =
     (if k = k' then (k, v) # kvs else (k', v') # dict_set k v kvs)"

definition dict_update :: "(string \<times> string) list \<Rightarrow> (string \<times> string) list \<Rightarrow> (string \<times> string) list" where
  "dict_update h hs = fold (\<lambda>(k, v). dict_set k v) hs h"

definition dav :: "config \<Rightarrow> server \<Rightarrow> request list \<Rightarrow> string \<Rightarrow> string \<Rightarrow> (string \<times> string) list
    \<Rightarrow> string option \<Rightarrow> bool \<Rightarrow> (error + response) \<times> request list" where
  "dav cfg srv log m u hs body content_type_xml =
     (case ensure_env cfg of
        Inl e \<Rightarrow> (Inl e, log)
      | Inr _ \<Rightarrow>
          let h = (if content_type_xml then [(''Content-Type'', ''application/xml; charset=utf-8'')] else []);
              h = dict_update h hs;
              req = \<lparr> verb = m, url = u, headers = h, data = body,
                      auth = (APPLE_ID cfg, APPLE_PW cfg) \<rparr>
          in (case srv log req of
                Inl e \<Rightarrow> (Inl (RequestFailed e), log @ [req])
              | Inr r \<Rightarrow>
                  if status_code r \<ge> 400
                  then (Inl (Upstream (status_code r) (str_or (resp_text r) (reason r))), log @ [req])
                  else (Inr r, log @ [req])))"

section \<open>XML trees and the ElementTree lookups\<close>

text \<open>
  An \<open>xml.etree.ElementTree.Element\<close>: its tag in the form \<open>{namespace}local\<close>, its
  \<open>.text\<close> (\<open>None\<close> when the element has none) and its children in document order.
  \<open>ET.fromstring\<close> is a parameter \<open>parse\<close> of the operations; \<open>None\<close> is \<open>ET.ParseError\<close>.
\<close>

datatype element = Element (tag: string) (etext: "string option") (children: "element list")

type_synonym parser = "string \<Rightarrow> element option"

text \<open>The tags the prefixes of \<open>NS = {"d": "DAV:", "c": "urn:ietf:params:xml:ns:caldav"}\<close> give.\<close>

definition d_tag :: "string \<Rightarrow> string" where
  "d_tag l = ''{DAV:}'' @ l"

definition c_tag :: "string \<Rightarrow> string" where
  "c_tag l = ''{urn:ietf:params:xml:ns:caldav}'' @ l"

text \<open>
  The paths the source uses are made of two steps: \<open>tag\<close> (the children with that tag) and
  \<open>.//tag\<close> (the elements below the current one with that tag, in document order, the
  current one excluded).
\<close>

datatype step = Child string | Descendant string

fun iter :: "element \<Rightarrow> element list" where
  "iter (Element t x cs) = Element t x cs # concat (map iter cs)"

definition descendants :: "element \<Rightarrow> element list" where
  "descendants e = concat (map iter (children e))"

fun select :: "step \<Rightarrow> element list \<Rightarrow> element list" where
  "select (Child t) es = concat (map (\<lambda>e. filter (\<lambda>c. tag c = t) (children e)) es)"
| "select (Descendant t) es = concat (map (\<lambda>e. filter (\<lambda>c. tag c = t) (descendants e)) es)"

definition findall :: "element \<Rightarrow> step list \<Rightarrow> element list" where
  "findall root path = fold select path [root]"

definition find_el :: "element \<Rightarrow> step list \<Rightarrow> element option" where
  "find_el root path = (case findall root path of [] \<Rightarrow> None | e # _ \<Rightarrow> Some e)"

definition parse_xml :: "parser \<Rightarrow> string \<Rightarrow> error + element" where
  "parse_xml parse xml = (case parse xml of None \<Rightarrow> Inl BadXML | Some root \<Rightarrow> Inr root)"

definition find_text :: "element \<Rightarrow> step list \<Rightarrow> string option" where
  "find_text root xpath =
     (case find_el root xpath of
        None \<Rightarrow> None
      | Some el \<Rightarrow> if opt_or (etext el) [] \<noteq> [] then Some (strip (opt_or (etext el) [])) else None)"

text \<open>
  The four paths of \<open>extract_principal_href\<close>; the last two spell the namespace out and
  select what the first two select.
\<close>

definition principal_xpaths :: "step list list" where
  "principal_xpaths =
     [ [Descendant (d_tag ''current-user-principal''), Child (d_tag ''href'')],
       [Descendant (d_tag ''principal-URL''), Child (d_tag ''href'')],
       [Descendant ''{DAV:}current-user-principal'', Child ''{DAV:}href''],
       [Descendant ''{DAV:}principal-URL'', Child ''{DAV:}href''] ]"

fun first_text :: "element \<Rightarrow> step list list \<Rightarrow> string option" where
  "first_text root [] = None"
| "first_text root (xp # xps) =
     (case find_text root xp of
        Some val \<Rightarrow> if val \<noteq> [] then Some val else first_text root xps
      | None \<Rightarrow> first_text root xps)"

definition extract_principal_href :: "parser \<Rightarrow> string \<Rightarrow> error + string option" where
  "extract_principal_href parse xml =
     (case parse_xml parse xml of
        Inl e \<Rightarrow> Inl e
      | Inr root \<Rightarrow> Inr (first_text root principal_xpaths))"

section \<open>Principal discovery\<close>

text \<open>A triple-quoted literal: its lines joined with LF.\<close>

definition text_lines :: "string list \<Rightarrow> string" where
  "text_lines ls = join [LF] ls"

definition principal_body :: string where
  \<open>principal_body = text_lines
     [ ''<?xml version="1.0"?>'',
       ''<D:propfind xmlns:D="DAV:">'',
       ''  <D:prop><D:current-user-principal/></D:prop>'',
       ''</D:propfind>'' ]\<close>

definition principal_body2 :: string where
  \<open>principal_body2 = text_lines
     [ ''<?xml version="1.0"?>'',
       ''<D:propfind xmlns:D="DAV:">'',
       ''  <D:prop><D:principal-URL/></D:prop>'',
       ''</D:propfind>'' ]\<close>

text \<open>The loop \<open>for path in ("/.well-known/caldav", "/")\<close>; \<open>Inr None\<close> when it falls through.\<close>

fun principal_loop :: "config \<Rightarrow> parser \<Rightarrow> server \<Rightarrow> request list \<Rightarrow> string list
    \<Rightarrow> (error + string option) \<times> request list" where
  "principal_loop cfg parse srv log [] = (Inr None, log)"
| "principal_loop cfg parse srv log (path # paths) =
     (case dav cfg srv log ''PROPFIND'' (BASE cfg @ path) [(''Depth'', ''0'')] (Some principal_body) True of
        (Inl e, log') \<Rightarrow> (Inl e, log')
      | (Inr r, log') \<Rightarrow>
          (case extract_principal_href parse (resp_text r) of
             Inl e \<Rightarrow> (Inl e, log')
           | Inr href \<Rightarrow>
               if opt_or href [] \<noteq> [] then (Inr (Some (opt_or href [])), log')
               else principal_loop cfg parse srv log' paths))"

definition principal :: "config \<Rightarrow> parser \<Rightarrow> server \<Rightarrow> request list \<Rightarrow> string option
    \<Rightarrow> (error + string) \<times> request list" where
  "principal cfg parse srv log x_api_key =
     (case require_key cfg x_api_key of
        Inl e \<Rightarrow> (Inl e, log)
      | Inr _ \<Rightarrow>
          (case principal_loop cfg parse srv log [''/.well-known/caldav'', ''/''] of
             (Inl e, log') \<Rightarrow> (Inl e, log')
           | (Inr (Some href), log') \<Rightarrow> (Inr href, log')
           | (Inr None, log') \<Rightarrow>
               (case dav cfg srv log' ''PROPFIND'' (BASE cfg @ ''/'') [(''Depth'', ''0'')] (Some principal_body2) True of
                  (Inl e, log'') \<Rightarrow> (Inl e, log'')
                | (Inr r, log'') \<Rightarrow>
                    (case extract_principal_href parse (resp_text r) of
                       Inl e \<Rightarrow> (Inl e, log'')
                     | Inr href \<Rightarrow>
                         if opt_or href [] \<noteq> [] then (Inr (opt_or href []), log'')
                         else (Inl NoPrincipal, log'')))))"

section \<open>Href resolution\<close>

text \<open>
  The expression \<open>h if h.startswith(('http://', 'https://')) else f"{BASE}{h}"\<close>, which
  \<open>calendars\<close>, \<open>events\<close>, \<open>create\<close> and \<open>delete\<close> each apply to the href they are given.
\<close>

definition resolve :: "string \<Rightarrow> string \<Rightarrow> string" where
  "resolve base h = (if startswith_any h [''http://'', ''https://''] then h else base @ h)"

section \<open>Calendar home and calendar listing\<close>

definition home_body :: string where
  \<open>home_body = text_lines
     [ ''<?xml version="1.0"?>'',
       ''<D:propfind xmlns:D="DAV:" xmlns:C="urn:ietf:params:xml:ns:caldav">'',
       ''  <D:prop><C:calendar-home-set/></D:prop>'',
       ''</D:propfind>'' ]\<close>

definition home :: "config \<Rightarrow> parser \<Rightarrow> server \<Rightarrow> request list \<Rightarrow> string option
    \<Rightarrow> (error + string) \<times> request list" where
  "home cfg parse srv log x_api_key =
     (case require_key cfg x_api_key of
        Inl e \<Rightarrow> (Inl e, log)
      | Inr _ \<Rightarrow>
          (case principal cfg parse srv log x_api_key of
             (Inl e, log') \<Rightarrow> (Inl e, log')
           | (Inr p, log') \<Rightarrow>
               (case dav cfg srv log' ''PROPFIND'' (BASE cfg @ p) [(''Depth'', ''0'')] (Some home_body) True of
                  (Inl e, log'') \<Rightarrow> (Inl e, log'')
                | (Inr r, log'') \<Rightarrow>
                    (case parse_xml parse (resp_text r) of
                       Inl e \<Rightarrow> (Inl e, log'')
                     | Inr root \<Rightarrow>
                         let href = str_or
                               (opt_or (find_text root [Descendant (c_tag ''calendar-home-set''), Child (d_tag ''href'')]) [])
                               (opt_or (find_text root [Descendant ''{urn:ietf:params:xml:ns:caldav}calendar-home-set'',
                                                        Child ''{DAV:}href'']) [])
                         in if href = [] then (Inl NoHome, log'') else (Inr href, log'')))))"

definition calendars_body :: string where
  \<open>calendars_body = text_lines
     [ ''<?xml version="1.0"?>'',
       ''<D:propfind xmlns:D="DAV:" xmlns:C="urn:ietf:ietf:params:xml:ns:caldav">'',
       ''  <D:prop>'',
       ''    <D:displayname/>'',
       ''    <C:supported-calendar-component-set/>'',
       ''    <D:resourcetype/>'',
       ''  </D:prop>'',
       ''</D:propfind>'' ]\<close>

definition do_list :: "config \<Rightarrow> server \<Rightarrow> request list \<Rightarrow> string \<Rightarrow> bool
    \<Rightarrow> (error + string) \<times> request list" where
  "do_list cfg srv log home_href ns_ok =
     (let xml = (if ns_ok then calendars_body
                 else replace ''urn:ietf:ietf:params:xml:ns:caldav'' ''urn:ietf:params:xml:ns:caldav''
                        calendars_body);
          url = resolve (BASE cfg) home_href
      in case dav cfg srv log ''PROPFIND'' url [(''Depth'', ''1'')] (Some xml) True of
           (Inl e, log') \<Rightarrow> (Inl e, log')
         | (Inr r, log') \<Rightarrow> (Inr (resp_text r), log'))"

text \<open>\<open>try: res = do_list(True)\<close> \<open>except HTTPException: res = do_list(False)\<close>.\<close>

definition list_with_retry :: "config \<Rightarrow> server \<Rightarrow> request list \<Rightarrow> string
    \<Rightarrow> (error + string) \<times> request list" where
  "list_with_retry cfg srv log home_href =
     (case do_list cfg srv log home_href True of
        (Inr res, log') \<Rightarrow> (Inr res, log')
      | (Inl e, log') \<Rightarrow> do_list cfg srv log' home_href False)"

text \<open>
  The loop over \<open>root.findall(".//d:response", NS)\<close> of \<open>calendars\<close>; an item is the pair
  (href, displayname) of the dict the source appends.
\<close>

fun calendar_items :: "element list \<Rightarrow> (string \<times> string) list \<Rightarrow> (string \<times> string) list" where
  "calendar_items [] items = items"
| "calendar_items (resp # resps) items =
     (case (find_el resp [Child (d_tag ''href'')], find_el resp [Descendant (d_tag ''displayname'')]) of
        (Some href_el, Some name_el) \<Rightarrow>
          (let href = strip (opt_or (etext href_el) []);
               name = strip (opt_or (etext name_el) [])
           in if href \<noteq> [] then calendar_items resps (items @ [(href, name)])
              else calendar_items resps items)
      | _ \<Rightarrow> calendar_items resps items)"

definition calendars :: "config \<Rightarrow> parser \<Rightarrow> server \<Rightarrow> request list \<Rightarrow> string option
    \<Rightarrow> (error + string \<times> (string \<times> string) list) \<times> request list" where
  "calendars cfg parse srv log x_api_key =
     (case require_key cfg x_api_key of
        Inl e \<Rightarrow> (Inl e, log)
      | Inr _ \<Rightarrow>
          (case home cfg parse srv log x_api_key of
             (Inl e, log') \<Rightarrow> (Inl e, log')
           | (Inr home_href, log') \<Rightarrow>
               (case list_with_retry cfg srv log' home_href of
                  (Inl e, log'') \<Rightarrow> (Inl e, log'')
                | (Inr res, log'') \<Rightarrow>
                    (case parse_xml parse res of
                       Inl e \<Rightarrow> (Inl e, log'')
                     | Inr root \<Rightarrow>
                         (Inr (home_href,
                               calendar_items (findall root [Descendant (d_tag ''response'')]) []),
                          log'')))))"

section \<open>Event query\<close>

record TimeRange =
  tr_calendar_href :: string
  start_z :: string
  end_z :: string

definition events_body :: "TimeRange \<Rightarrow> string" where
  \<open>events_body tr = text_lines
     [ ''<?xml version="1.0"?>'',
       ''<c:calendar-query xmlns:d="DAV:" xmlns:c="urn:ietf:params:xml:ns:caldav">'',
       ''  <d:prop><d:getetag/><c:calendar-data/></d:prop>'',
       ''  <c:filter><c:comp-filter name="VCALENDAR">'',
       ''    <c:comp-filter name="VEVENT">'',
       ''      <c:time-range start="'' @ start_z tr @ ''" end="'' @ end_z tr @ ''"/>'',
       ''    </c:comp-filter>'',
       ''  </c:comp-filter></c:filter>'',
       ''</c:calendar-query>'' ]\<close>

text \<open>The loop of \<open>events\<close>; an item is the pair (href, ics).\<close>

fun event_items :: "element list \<Rightarrow> (string \<times> string) list \<Rightarrow> (string \<times> string) list" where
  "event_items [] items = items"
| "event_items (resp # resps) items =
     (case (find_el resp [Child (d_tag ''href'')], find_el resp [Descendant (c_tag ''calendar-data'')]) of
        (Some href_el, Some data_el) \<Rightarrow>
          (let href = strip (opt_or (etext href_el) []);
               ics = strip (opt_or (etext data_el) [])
           in if href \<noteq> [] \<and> ics \<noteq> [] then event_items resps (items @ [(href, ics)])
              else event_items resps items)
      | _ \<Rightarrow> event_items resps items)"

definition events :: "config \<Rightarrow> parser \<Rightarrow> server \<Rightarrow> request list \<Rightarrow> TimeRange \<Rightarrow> string option
    \<Rightarrow> (error + (string \<times> string) list) \<times> request list" where
  "events cfg parse srv log tr x_api_key =
     (case require_key cfg x_api_key of
        Inl e \<Rightarrow> (Inl e, log)
      | Inr _ \<Rightarrow>
          (let url = resolve (BASE cfg) (tr_calendar_href tr)
           in case dav cfg srv log ''REPORT'' url [(''Depth'', ''1'')] (Some (events_body tr)) True of
                (Inl e, log') \<Rightarrow> (Inl e, log')
              | (Inr r, log') \<Rightarrow>
                  (case parse_xml parse (resp_text r) of
                     Inl e \<Rightarrow> (Inl e, log')
                   | Inr root \<Rightarrow>
                       (Inr (event_items (findall root [Descendant (d_tag ''response'')]) []), log'))))"

section \<open>Event creation and deletion\<close>

record CreateEvent =
  calendar_href :: string
  summary :: string
  dtstart_z :: string
  dtend_z :: string
  description :: "string option"
  uid :: "string option"

record DeleteEvent =
  d_href :: string

text \<open>
  \<open>create\<close> reads two things from outside: \<open>uuid.uuid4().hex\<close> and
  \<open>dt.datetime.utcnow().strftime("%Y%m%dT%H%M%SZ")\<close>. They are the arguments \<open>uuid4_hex\<close>
  and \<open>dtstamp\<close> of the model.
\<close>

definition create_uid :: "CreateEvent \<Rightarrow> string \<Rightarrow> string" where
  "create_uid ev uuid4_hex = upper (opt_or (uid ev) uuid4_hex)"

definition create_lines :: "CreateEvent \<Rightarrow> string \<Rightarrow> string \<Rightarrow> string list" where
  "create_lines ev uid' dtstamp =
     (let description' = replace [LF] [BACKSLASH, CHR ''n''] (opt_or (description ev) [])
      in [ ''BEGIN:VCALENDAR'',
           ''VERSION:2.0'',
           ''PRODID:-//Clockwork//Study//EN'',
           ''CALSCALE:GREGORIAN'',
           ''BEGIN:VEVENT'',
           ''UID:'' @ uid' @ ''@clockwork'',
           ''DTSTAMP:'' @ dtstamp,
           ''DTSTART:'' @ dtstart_z ev,
           ''DTEND:'' @ dtend_z ev,
           ''SUMMARY:'' @ summary ev,
           ''DESCRIPTION:'' @ description',
           ''END:VEVENT'',
           ''END:VCALENDAR'',
           [] ])"

definition create_ics :: "CreateEvent \<Rightarrow> string \<Rightarrow> string \<Rightarrow> string" where
  "create_ics ev uid' dtstamp = join CRLF (create_lines ev uid' dtstamp)"

text \<open>The result \<open>{"ok": True, "uid": uid, "href": ...}\<close> is the pair (uid, href).\<close>

definition create :: "config \<Rightarrow> server \<Rightarrow> request list \<Rightarrow> string \<Rightarrow> string \<Rightarrow> CreateEvent
    \<Rightarrow> string option \<Rightarrow> (error + string \<times> string) \<times> request list" where
  "create cfg srv log uuid4_hex dtstamp ev x_api_key =
     (case require_key cfg x_api_key of
        Inl e \<Rightarrow> (Inl e, log)
      | Inr _ \<Rightarrow>
          (let uid' = create_uid ev uuid4_hex;
               ics = create_ics ev uid' dtstamp;
               calendar_url = resolve (BASE cfg) (calendar_href ev);
               url' = calendar_url @ uid' @ ''.ics'';
               req = \<lparr> verb = ''PUT'', url = url',
                       headers = [(''Content-Type'', ''text/calendar; charset=utf-8''),
                                  (''If-None-Match'', ''*'')],
                       data = Some ics, auth = (APPLE_ID cfg, APPLE_PW cfg) \<rparr>
           in case srv log req of
                Inl e \<Rightarrow> (Inl (PutFailed e), log @ [req])
              | Inr r \<Rightarrow>
                  if status_code r \<notin> set [200, 201, 204]
                  then (Inl (PutRejected (status_code r) (str_or (resp_text r) (reason r))), log @ [req])
                  else (Inr (uid', calendar_href ev @ uid' @ ''.ics''), log @ [req])))"

definition delete :: "config \<Rightarrow> server \<Rightarrow> request list \<Rightarrow> DeleteEvent \<Rightarrow> string option
    \<Rightarrow> (error + unit) \<times> request list" where
  "delete cfg srv log d x_api_key =
     (case require_key cfg x_api_key of
        Inl e \<Rightarrow> (Inl e, log)
      | Inr _ \<Rightarrow>
          (let url' = resolve (BASE cfg) (d_href d);
               req = \<lparr> verb = ''DELETE'', url = url', headers = [], data = None,
                       auth = (APPLE_ID cfg, APPLE_PW cfg) \<rparr>
           in case srv log req of
                Inl e \<Rightarrow> (Inl (DeleteFailed e), log @ [req])
              | Inr r \<Rightarrow>
                  if status_code r \<notin> set [200, 202, 204]
                  then (Inl (DeleteRejected (status_code r) (str_or (resp_text r) (reason r))), log @ [req])
                  else (Inr (), log @ [req])))"

section \<open>Notions used to state the properties\<close>

text \<open>
  Newline escaping as the specification words it: every LF becomes the two characters
  backslash and \<open>n\<close>, every other character stays as it is.
\<close>

definition escape_newlines :: "string \<Rightarrow> string" where
  "escape_newlines d = concat (map (\<lambda>c. if c = LF then [BACKSLASH, CHR ''n''] else [c]) d)"

text \<open>A bare LF is an LF that does not directly follow a CR; \<open>cr\<close> tells whether the previous
  character was a CR.\<close>

fun bare_lf_after :: "bool \<Rightarrow> string \<Rightarrow> bool" where
  "bare_lf_after cr [] = False"
| "bare_lf_after cr (c # cs) = ((c = LF \<and> \<not> cr) \<or> bare_lf_after (c = CR) cs)"

definition has_bare_lf :: "string \<Rightarrow> bool" where
  "has_bare_lf s = bare_lf_after False s"

text \<open>An environment with the two credentials set, and a server that always gives one response.\<close>

definition example_env :: "string \<rightharpoonup> string" where
  "example_env = [''APPLE_ID'' \<mapsto> ''user@example.com'', ''APPLE_APP_PASSWORD'' \<mapsto> ''app-pw'']"

definition example_cfg :: config where
  "example_cfg = load_config example_env"

definition respond :: "response \<Rightarrow> server" where
  "respond r log req = Inr r"

text \<open>An environment whose \<open>BASE_URL\<close> spells the scheme in upper case.\<close>

definition uppercase_scheme_env :: "string \<rightharpoonup> string" where
  "uppercase_scheme_env = [''BASE_URL'' \<mapsto> ''HTTPS://caldav.icloud.com/'']"

text \<open>The create request of the specification's scenario C.\<close>

definition standup :: CreateEvent where
  "standup = \<lparr> calendar_href = ''/123/calendars/work/'', summary = ''Standup'',
               dtstart_z = ''20250101T090000Z'', dtend_z = ''20250101T093000Z'',
               description = None, uid = None \<rparr>"

text \<open>Create requests used as examples, and two server responses.\<close>

definition release_notes :: CreateEvent where
  "release_notes = \<lparr> calendar_href = ''/123/calendars/work/'', summary = ''Release'',
               dtstart_z = ''20250101T090000Z'', dtend_z = ''20250101T093000Z'',
               description = Some (''a,b;c'' @ [LF] @ ''d''), uid = Some ''abc'' \<rparr>"

definition two_line_summary :: CreateEvent where
  "two_line_summary = \<lparr> calendar_href = ''/123/calendars/work/'', summary = ''Stand'' @ [LF] @ ''up'',
               dtstart_z = ''20250101T090000Z'', dtend_z = ''20250101T093000Z'',
               description = None, uid = Some ''abc'' \<rparr>"

definition standup_elsewhere :: CreateEvent where
  "standup_elsewhere = standup \<lparr> calendar_href := ''https://p01-caldav.icloud.com/9/calendars/home/'' \<rparr>"

definition created :: response where
  "created = \<lparr> status_code = 201, resp_text = [], reason = ''Created'' \<rparr>"

definition conflict :: response where
  "conflict = \<lparr> status_code = 412, resp_text = [], reason = ''Precondition Failed'' \<rparr>"




text \<open>
  What a \<open>response\<close> element offers to the listing and the query: the trimmed text of its first
  \<open>href\<close> child, of the first \<open>displayname\<close> below it and of the first \<open>calendar-data\<close>
  below it (\<open>None\<close> when there is no such element).
\<close>

definition href_text :: "element \<Rightarrow> string option" where
  "href_text resp = map_option (\<lambda>e. strip (opt_or (etext e) [])) (find_el resp [Child (d_tag ''href'')])"

definition displayname_text :: "element \<Rightarrow> string option" where
  "displayname_text resp =
     map_option (\<lambda>e. strip (opt_or (etext e) [])) (find_el resp [Descendant (d_tag ''displayname'')])"

definition calendar_data_text :: "element \<Rightarrow> string option" where
  "calendar_data_text resp =
     map_option (\<lambda>e. strip (opt_or (etext e) [])) (find_el resp [Descendant (c_tag ''calendar-data'')])"

text \<open>The responses that make a calendar entry, and the entry each makes.\<close>

definition is_calendar_entry :: "element \<Rightarrow> bool" where
  "is_calendar_entry resp \<longleftrightarrow>
     href_text resp \<noteq> None \<and> href_text resp \<noteq> Some [] \<and> displayname_text resp \<noteq> None"

definition calendar_entry :: "element \<Rightarrow> string \<times> string" where
  "calendar_entry resp = (the (href_text resp), the (displayname_text resp))"

text \<open>
  The responses that make an event pair: the href and the calendar-data document are both
  present, with non-empty trimmed text.
\<close>

definition is_event_entry :: "element \<Rightarrow> bool" where
  "is_event_entry resp \<longleftrightarrow>
     href_text resp \<noteq> None \<and> href_text resp \<noteq> Some [] \<and>
     calendar_data_text resp \<noteq> None \<and> calendar_data_text resp \<noteq> Some []"

definition event_entry :: "element \<Rightarrow> string \<times> string" where
  "event_entry resp = (the (href_text resp), the (calendar_data_text resp))"

text \<open>The response holds an \<open>href\<close> child and a \<open>displayname\<close> element, whatever their text.\<close>

definition has_href_and_displayname :: "element \<Rightarrow> bool" where
  "has_href_and_displayname resp \<longleftrightarrow>
     find_el resp [Child (d_tag ''href'')] \<noteq> None \<and>
     find_el resp [Descendant (d_tag ''displayname'')] \<noteq> None"

text \<open>Multistatus documents used as examples (the first is the one of scenario B).\<close>

definition work_response :: element where
  "work_response = Element (d_tag ''response'') None
     [ Element (d_tag ''href'') (Some ''/123/calendars/work/'') [],
       Element (d_tag ''propstat'') None
         [ Element (d_tag ''prop'') None [Element (d_tag ''displayname'') (Some ''Work'') []] ] ]"

definition unnamed_response :: element where
  "unnamed_response = Element (d_tag ''response'') None
     [ Element (d_tag ''href'') (Some ''/123/calendars/inbox/'') [],
       Element (d_tag ''propstat'') None [Element (d_tag ''prop'') None []] ]"

definition empty_href_response :: element where
  "empty_href_response = Element (d_tag ''response'') None
     [ Element (d_tag ''href'') None [],
       Element (d_tag ''propstat'') None
         [ Element (d_tag ''prop'') None [Element (d_tag ''displayname'') (Some ''Work'') []] ] ]"

definition empty_name_response :: element where
  "empty_name_response = Element (d_tag ''response'') None
     [ Element (d_tag ''href'') (Some ''/123/calendars/home/'') [],
       Element (d_tag ''propstat'') None
         [ Element (d_tag ''prop'') None [Element (d_tag ''displayname'') None []] ] ]"

definition scenario_b_doc :: element where
  "scenario_b_doc = Element (d_tag ''multistatus'') None [work_response, unnamed_response]"

definition empty_href_doc :: element where
  "empty_href_doc = Element (d_tag ''multistatus'') None [empty_href_response, empty_name_response]"

definition sample_ics :: string where
  "sample_ics = ''BEGIN:VCALENDAR'' @ CRLF @ ''END:VCALENDAR'' @ CRLF"

definition event_response :: element where
  "event_response = Element (d_tag ''response'') None
     [ Element (d_tag ''href'') (Some ''/123/calendars/work/ABC.ics'') [],
       Element (d_tag ''propstat'') None
         [ Element (d_tag ''prop'') None
             [ Element (d_tag ''getetag'') (Some ''e1'') [],
               Element (c_tag ''calendar-data'') (Some sample_ics) [] ] ] ]"

definition no_data_response :: element where
  "no_data_response = Element (d_tag ''response'') None
     [ Element (d_tag ''href'') (Some ''/123/calendars/work/DEF.ics'') [],
       Element (d_tag ''propstat'') None
         [ Element (d_tag ''prop'') None [Element (d_tag ''getetag'') (Some ''e2'') []] ] ]"

definition empty_href_event_response :: element where
  "empty_href_event_response = Element (d_tag ''response'') None
     [ Element (d_tag ''href'') None [],
       Element (d_tag ''propstat'') None
         [ Element (d_tag ''prop'') None
             [ Element (c_tag ''calendar-data'') (Some ''BEGIN:VCALENDAR'') [] ] ] ]"

definition events_doc :: element where
  "events_doc = Element (d_tag ''multistatus'') None
     [no_data_response, empty_href_event_response, event_response]"

text \<open>The response holds an \<open>href\<close> and a \<open>displayname\<close> that both have non-empty text.\<close>

definition has_nonempty_href_and_displayname :: "element \<Rightarrow> bool" where
  "has_nonempty_href_and_displayname resp \<longleftrightarrow>
     href_text resp \<noteq> None \<and> href_text resp \<noteq> Some [] \<and>
     displayname_text resp \<noteq> None \<and> displayname_text resp \<noteq> Some []"

text \<open>
  The request \<open>dav\<close> hands to \<open>requests\<close> for a PROPFIND with a \<open>Depth\<close> header and a body.
\<close>

definition propfind_request :: "config \<Rightarrow> string \<Rightarrow> string \<Rightarrow> string \<Rightarrow> request" where
  "propfind_request cfg u depth body =
     \<lparr> verb = ''PROPFIND'', url = u,
       headers = [(''Content-Type'', ''application/xml; charset=utf-8''), (''Depth'', depth)],
       data = Some body, auth = (APPLE_ID cfg, APPLE_PW cfg) \<rparr>"

text \<open>The listing body with the standard CalDAV namespace \<open>urn:ietf:params:xml:ns:caldav\<close>.\<close>

definition calendars_body_standard :: string where
  \<open>calendars_body_standard = text_lines
     [ ''<?xml version="1.0"?>'',
       ''<D:propfind xmlns:D="DAV:" xmlns:C="urn:ietf:params:xml:ns:caldav">'',
       ''  <D:prop>'',
       ''    <D:displayname/>'',
       ''    <C:supported-calendar-component-set/>'',
       ''    <D:resourcetype/>'',
       ''  </D:prop>'',
       ''</D:propfind>'' ]\<close>

text \<open>A server that answers the n-th request with the n-th outcome of a list.\<close>

definition script :: "(string + response) list \<Rightarrow> server" where
  "script outcomes log req =
     (if length log < length outcomes then outcomes ! length log else Inl ''connection refused'')"

text \<open>Two responses to the listing request: a rejection and a multistatus answer.\<close>

definition rejected :: response where
  "rejected = \<lparr> status_code = 400, resp_text = [], reason = ''Bad Request'' \<rparr>"

definition listed :: response where
  \<open>listed = \<lparr> status_code = 207,
              resp_text = ''<multistatus xmlns="DAV:"/>'',
              reason = ''Multi-Status'' \<rparr>\<close>

text \<open>
  The three requests of principal discovery: \<open>current-user-principal\<close> asked of the
  well-known path, the same asked of the root, and \<open>principal-URL\<close> asked of the root.
\<close>

definition wellknown_request :: "config \<Rightarrow> request" where
  "wellknown_request cfg = propfind_request cfg (BASE cfg @ ''/.well-known/caldav'') ''0'' principal_body"

definition root_request :: "config \<Rightarrow> request" where
  "root_request cfg = propfind_request cfg (BASE cfg @ ''/'') ''0'' principal_body"

definition fallback_request :: "config \<Rightarrow> request" where
  "fallback_request cfg = propfind_request cfg (BASE cfg @ ''/'') ''0'' principal_body2"

text \<open>
  What sending one of them yields: the error \<open>dav\<close> or the parser raises, or the principal
  href \<open>extract_principal_href\<close> finds in the response (\<open>None\<close> when it finds none).
\<close>

definition attempt :: "config \<Rightarrow> parser \<Rightarrow> server \<Rightarrow> request list \<Rightarrow> request \<Rightarrow> error + string option" where
  "attempt cfg parse srv log req =
     (case dav cfg srv log (verb req) (url req) [(''Depth'', ''0'')] (data req) True of
        (Inl e, _) \<Rightarrow> Inl e
      | (Inr r, _) \<Rightarrow> extract_principal_href parse (resp_text r))"

text \<open>The response of scenario A, its tree, and a parser that knows the example documents.\<close>

definition principal_xml :: string where
  \<open>principal_xml = ''<d:multistatus xmlns:d="DAV:"><d:response><d:propstat><d:prop><d:current-user-principal><d:href>/123/principal/</d:href></d:current-user-principal></d:prop></d:propstat></d:response></d:multistatus>''\<close>

definition principal_doc :: element where
  "principal_doc = Element (d_tag ''multistatus'') None
     [ Element (d_tag ''response'') None
         [ Element (d_tag ''propstat'') None
             [ Element (d_tag ''prop'') None
                 [ Element (d_tag ''current-user-principal'') None
                     [ Element (d_tag ''href'') (Some ''/123/principal/'') [] ] ] ] ] ]"

definition principal_found :: response where
  "principal_found = \<lparr> status_code = 207, resp_text = principal_xml, reason = ''Multi-Status'' \<rparr>"

definition example_parse :: parser where
  \<open>example_parse = map_of
     [ (''<multistatus xmlns="DAV:"/>'', Element (d_tag ''multistatus'') None []),
       (principal_xml, principal_doc) ]\<close>

text \<open>The request \<open>dav\<close> hands to \<open>requests\<close> for the REPORT of \<open>events\<close>.\<close>

definition report_request :: "config \<Rightarrow> string \<Rightarrow> string \<Rightarrow> request" where
  "report_request cfg u body =
     \<lparr> verb = ''REPORT'', url = u,
       headers = [(''Content-Type'', ''application/xml; charset=utf-8''), (''Depth'', ''1'')],
       data = Some body, auth = (APPLE_ID cfg, APPLE_PW cfg) \<rparr>"

text \<open>
  The response holds an \<open>href\<close> child and a \<open>calendar-data\<close> element whose text is not empty.
\<close>

definition has_href_and_nonempty_data :: "element \<Rightarrow> bool" where
  "has_href_and_nonempty_data resp \<longleftrightarrow>
     find_el resp [Child (d_tag ''href'')] \<noteq> None \<and>
     (case find_el resp [Descendant (c_tag ''calendar-data'')] of
        None \<Rightarrow> False
      | Some e \<Rightarrow> opt_or (etext e) [] \<noteq> [])"

text \<open>
  Responses the event query drops: a document of white space only, and an empty \<open>href\<close>
  followed by a second one.
\<close>

definition blank_data_response :: element where
  "blank_data_response = Element (d_tag ''response'') None
     [ Element (d_tag ''href'') (Some ''/123/calendars/work/GHI.ics'') [],
       Element (d_tag ''propstat'') None
         [ Element (d_tag ''prop'') None
             [ Element (c_tag ''calendar-data'') (Some [CHR 0x20, LF]) [] ] ] ]"

definition second_href_response :: element where
  "second_href_response = Element (d_tag ''response'') None
     [ Element (d_tag ''href'') None [],
       Element (d_tag ''href'') (Some ''/123/calendars/work/JKL.ics'') [],
       Element (d_tag ''propstat'') None
         [ Element (d_tag ''prop'') None
             [ Element (c_tag ''calendar-data'') (Some ''BEGIN:VCALENDAR'') [] ] ] ]"

definition dropped_events_doc :: element where
  "dropped_events_doc = Element (d_tag ''multistatus'') None
     [empty_href_event_response, blank_data_response, second_href_response]"

text \<open>An answer to the event query, with its tree, and a time range.\<close>

definition events_xml :: string where
  \<open>events_xml = ''<d:multistatus xmlns:d="DAV:" xmlns:c="urn:ietf:params:xml:ns:caldav"><d:response><d:href>/123/calendars/work/DEF.ics</d:href><d:propstat><d:prop><d:getetag>e2</d:getetag></d:prop></d:propstat></d:response><d:response><d:href/><d:propstat><d:prop><c:calendar-data>BEGIN:VCALENDAR</c:calendar-data></d:prop></d:propstat></d:response><d:response><d:href>/123/calendars/work/ABC.ics</d:href><d:propstat><d:prop><d:getetag>e1</d:getetag><c:calendar-data>BEGIN:VCALENDAR&#13;&#10;END:VCALENDAR&#13;&#10;</c:calendar-data></d:prop></d:propstat></d:response></d:multistatus>''\<close>

definition events_found :: response where
  "events_found = \<lparr> status_code = 207, resp_text = events_xml, reason = ''Multi-Status'' \<rparr>"

definition events_parse :: parser where
  "events_parse = map_of [(events_xml, events_doc)]"

definition new_year :: TimeRange where
  "new_year = \<lparr> tr_calendar_href = ''/123/calendars/work/'', start_z = ''20250101T000000Z'',
                end_z = ''20250102T000000Z'' \<rparr>"

text \<open>
  The answers of scenario B: the calendar home, the listing, and a server that gives the
  principal, the home and the listing in turn.
\<close>

definition home_xml :: string where
  \<open>home_xml = ''<d:multistatus xmlns:d="DAV:" xmlns:c="urn:ietf:params:xml:ns:caldav"><d:response><d:href>/123/principal/</d:href><d:propstat><d:prop><c:calendar-home-set><d:href>/123/calendars/</d:href></c:calendar-home-set></d:prop></d:propstat></d:response></d:multistatus>''\<close>

definition home_doc :: element where
  "home_doc = Element (d_tag ''multistatus'') None
     [ Element (d_tag ''response'') None
         [ Element (d_tag ''href'') (Some ''/123/principal/'') [],
           Element (d_tag ''propstat'') None
             [ Element (d_tag ''prop'') None
                 [ Element (c_tag ''calendar-home-set'') None
                     [ Element (d_tag ''href'') (Some ''/123/calendars/'') [] ] ] ] ] ]"

definition home_found :: response where
  "home_found = \<lparr> status_code = 207, resp_text = home_xml, reason = ''Multi-Status'' \<rparr>"

definition scenario_b_xml :: string where
  \<open>scenario_b_xml = ''<d:multistatus xmlns:d="DAV:"><d:response><d:href>/123/calendars/work/</d:href><d:propstat><d:prop><d:displayname>Work</d:displayname></d:prop></d:propstat></d:response><d:response><d:href>/123/calendars/inbox/</d:href><d:propstat><d:prop/></d:propstat></d:response></d:multistatus>''\<close>

definition calendars_found :: response where
  "calendars_found = \<lparr> status_code = 207, resp_text = scenario_b_xml, reason = ''Multi-Status'' \<rparr>"

definition listing_parse :: parser where
  "listing_parse = map_of
     [ (principal_xml, principal_doc), (home_xml, home_doc), (scenario_b_xml, scenario_b_doc) ]"

definition listing_server :: server where
  "listing_server = script [Inr principal_found, Inr home_found, Inr calendars_found]"

section \<open>Lemmas on strings\<close>

lemma example_cfg_simps:
  "BASE example_cfg = ''https://caldav.icloud.com''"
  "APPLE_ID example_cfg = Some ''user@example.com''"
  "APPLE_PW example_cfg = Some ''app-pw''"
  "API_KEY example_cfg = None"
  by (simp_all add: example_cfg_def load_config_def example_env_def rstrip_chars_def)

lemma require_key_example: "require_key example_cfg None = Inr ()"
  by (simp add: require_key_def example_cfg_simps opt_or_def)

lemma replace_single_char: "replace [a] new s = concat (map (\<lambda>c. if c = a then new else [c]) s)"
proof (induction s)
  case Nil
  show ?case by (simp add: replace.simps)
next
  case (Cons c cs)
  show ?case
  proof (cases "c = a")
    case True
    then show ?thesis using Cons by (subst replace.simps) simp
  next
    case False
    then show ?thesis using Cons by (subst replace.simps) simp
  qed
qed

lemma replace_newline: "replace [LF] [BACKSLASH, CHR ''n''] d = escape_newlines d"
  by (simp add: replace_single_char escape_newlines_def)

lemma LF_notin_escape: "LF \<notin> set (escape_newlines d)"
  by (induction d) (auto simp: escape_newlines_def LF_def BACKSLASH_def)

lemma escape_no_newline: "LF \<notin> set d \<Longrightarrow> escape_newlines d = d"
  by (induction d) (auto simp: escape_newlines_def)

lemma bare_lf_line:
  "LF \<notin> set l \<Longrightarrow> bare_lf_after b (l @ CR # LF # rest) = bare_lf_after False rest"
  by (induction l arbitrary: b) (auto simp: LF_def CR_def)

lemma strip_no_break_space: "strip [CHR 0xA0] = []" "strip ([CHR 0x85] @ ''a b'' @ [CHR 0xA0, CHR 0x20]) = ''a b''"
  by (simp_all add: strip_def lstrip_def rstrip_def is_space_def)

lemma startswith_append: "startswith s p \<Longrightarrow> startswith (s @ t) p"
  by (induction s p rule: startswith.induct) auto

lemma startswith_any_append: "startswith_any s ps \<Longrightarrow> startswith_any (s @ t) ps"
  by (auto simp: startswith_any_def list_ex_iff intro: startswith_append)

lemma upper_hex: "upper ''0a1b2c3d4e5f60718293a4b5c6d7e8f9'' = ''0A1B2C3D4E5F60718293A4B5C6D7E8F9''"
  by (simp add: upper_def upper_char_def upper_table_def)

section \<open>Href resolution is idempotent for an http(s) base\<close>

text \<open>
  C3 (as amended). For a base that itself begins with \<open>http://\<close> or \<open>https://\<close>, resolving
  an href twice gives what resolving it once gives; an href that begins with \<open>http://\<close> or
  \<open>https://\<close> is returned unchanged, and any other href gets the base prefixed once.
\<close>

theorem resolve_idempotent:
  assumes "startswith_any base [''http://'', ''https://'']"
  shows "resolve base (resolve base h) = resolve base h
       \<and> (startswith_any h [''http://'', ''https://''] \<longrightarrow> resolve base h = h)
       \<and> (\<not> startswith_any h [''http://'', ''https://''] \<longrightarrow> resolve base h = base @ h)"
  using assms startswith_any_append [of base "[''http://'', ''https://'']" h]
  by (simp add: resolve_def)

theorem resolve_idempotent_witness:
  "startswith_any (BASE example_cfg) [''http://'', ''https://'']
   \<and> resolve (BASE example_cfg) (resolve (BASE example_cfg) ''/123/calendars/'')
       = ''https://caldav.icloud.com/123/calendars/''
   \<and> resolve (BASE example_cfg) ''http://other.example/cal/'' = ''http://other.example/cal/''"
  using resolve_idempotent [of "BASE example_cfg" "''/123/calendars/''"]
        resolve_idempotent [of "BASE example_cfg" "''http://other.example/cal/''"]
  by (simp add: example_cfg_simps startswith_any_def resolve_def)

text \<open>
  With \<open>BASE_URL=HTTPS://caldav.icloud.com/\<close> the resolved href does not begin with
  \<open>http://\<close> or \<open>https://\<close>, and resolving it again prefixes the base a second time.
\<close>

theorem resolve_not_idempotent_counterexample:
  "resolve (BASE (load_config uppercase_scheme_env)) (resolve (BASE (load_config uppercase_scheme_env)) ''/cal/'')
     \<noteq> resolve (BASE (load_config uppercase_scheme_env)) ''/cal/''"
  by (simp add: load_config_def uppercase_scheme_env_def rstrip_chars_def resolve_def startswith_any_def)

section \<open>Event deletion\<close>

text \<open>
  C9 (as amended). When the API key is accepted and the server answers the DELETE, the
  deletion succeeds if and only if the status is 200, 202 or 204; for every other status
  it raises an error with the server's status and, as its detail, the body text, or the
  reason phrase when the body text is empty.
\<close>

theorem delete_status:
  assumes "require_key cfg x_api_key = Inr ()"
    and "srv log \<lparr> verb = ''DELETE'', url = resolve (BASE cfg) (d_href d), headers = [],
                    data = None, auth = (APPLE_ID cfg, APPLE_PW cfg) \<rparr> = Inr r"
  shows "(fst (delete cfg srv log d x_api_key) = Inr ()) = (status_code r \<in> {200, 202, 204})
       \<and> (status_code r \<notin> {200, 202, 204} \<longrightarrow>
            fst (delete cfg srv log d x_api_key)
              = Inl (DeleteRejected (status_code r) (if resp_text r = [] then reason r else resp_text r))
          \<and> http_exception (DeleteRejected (status_code r) (if resp_text r = [] then reason r else resp_text r))
              = (status_code r, if resp_text r = [] then reason r else resp_text r))"
  using assms by (simp add: delete_def Let_def str_or_def)

theorem delete_status_witness:
  "require_key example_cfg None = Inr ()
   \<and> fst (delete example_cfg (respond \<lparr> status_code = 404, resp_text = ''gone'', reason = ''Not Found'' \<rparr>) []
          \<lparr> d_href = ''/123/calendars/work/ABC.ics'' \<rparr> None)
     = Inl (DeleteRejected 404 ''gone'')"
  using delete_status [of example_cfg None "respond \<lparr> status_code = 404, resp_text = ''gone'', reason = ''Not Found'' \<rparr>"
      "[]" "\<lparr> d_href = ''/123/calendars/work/ABC.ics'' \<rparr>" "\<lparr> status_code = 404, resp_text = ''gone'', reason = ''Not Found'' \<rparr>"]
  by (simp add: require_key_example respond_def)

text \<open>A 404 with an empty body: the error carries the reason phrase, which is not the body text.\<close>

theorem delete_empty_body_counterexample:
  "fst (delete example_cfg (respond \<lparr> status_code = 404, resp_text = [], reason = ''Not Found'' \<rparr>) []
          \<lparr> d_href = ''/123/calendars/work/ABC.ics'' \<rparr> None)
     = Inl (DeleteRejected 404 ''Not Found'')
   \<and> ''Not Found'' \<noteq> resp_text \<lparr> status_code = 404, resp_text = [], reason = ''Not Found'' \<rparr>"
  by (simp add: delete_def require_key_example respond_def str_or_def)

section \<open>Event creation: the PUT and its outcome\<close>

text \<open>
  C2 (as amended). When the API key is accepted, creation sends one PUT to the resolved
  calendar href followed directly by \<open>{UID}.ics\<close>, with \<open>If-None-Match: *\<close>, the content type
  \<open>text/calendar; charset=utf-8\<close> and the document as body. If the server answers with status
  200, 201 or 204 the operation returns the UID (and the href); for every other status it
  raises an error with the server's status and, as its detail, the body text, or the reason
  phrase when the body text is empty.
\<close>

theorem create_put:
  assumes "require_key cfg x_api_key = Inr ()"
    and "srv log \<lparr> verb = ''PUT'',
                    url = resolve (BASE cfg) (calendar_href ev) @ create_uid ev uuid4_hex @ ''.ics'',
                    headers = [(''Content-Type'', ''text/calendar; charset=utf-8''), (''If-None-Match'', ''*'')],
                    data = Some (create_ics ev (create_uid ev uuid4_hex) dtstamp),
                    auth = (APPLE_ID cfg, APPLE_PW cfg) \<rparr> = Inr r"
  shows "snd (create cfg srv log uuid4_hex dtstamp ev x_api_key)
           = log @ [\<lparr> verb = ''PUT'',
                       url = resolve (BASE cfg) (calendar_href ev) @ create_uid ev uuid4_hex @ ''.ics'',
                       headers = [(''Content-Type'', ''text/calendar; charset=utf-8''), (''If-None-Match'', ''*'')],
                       data = Some (create_ics ev (create_uid ev uuid4_hex) dtstamp),
                       auth = (APPLE_ID cfg, APPLE_PW cfg) \<rparr>]
       \<and> (status_code r \<in> {200, 201, 204} \<longrightarrow>
            fst (create cfg srv log uuid4_hex dtstamp ev x_api_key)
              = Inr (create_uid ev uuid4_hex, calendar_href ev @ create_uid ev uuid4_hex @ ''.ics''))
       \<and> (status_code r \<notin> {200, 201, 204} \<longrightarrow>
            fst (create cfg srv log uuid4_hex dtstamp ev x_api_key)
              = Inl (PutRejected (status_code r) (if resp_text r = [] then reason r else resp_text r))
          \<and> http_exception (PutRejected (status_code r) (if resp_text r = [] then reason r else resp_text r))
              = (status_code r, if resp_text r = [] then reason r else resp_text r))"
  using assms by (simp add: create_def Let_def str_or_def)

theorem create_put_witness:
  "require_key example_cfg None = Inr ()
   \<and> snd (create example_cfg (respond \<lparr> status_code = 201, resp_text = [], reason = ''Created'' \<rparr>) []
             ''0a1b2c3d4e5f60718293a4b5c6d7e8f9'' ''20241231T235959Z'' standup None)
       = [\<lparr> verb = ''PUT'',
            url = ''https://caldav.icloud.com/123/calendars/work/0A1B2C3D4E5F60718293A4B5C6D7E8F9.ics'',
            headers = [(''Content-Type'', ''text/calendar; charset=utf-8''), (''If-None-Match'', ''*'')],
            data = Some (create_ics standup ''0A1B2C3D4E5F60718293A4B5C6D7E8F9'' ''20241231T235959Z''),
            auth = (Some ''user@example.com'', Some ''app-pw'') \<rparr>]
   \<and> fst (create example_cfg (respond \<lparr> status_code = 201, resp_text = [], reason = ''Created'' \<rparr>) []
             ''0a1b2c3d4e5f60718293a4b5c6d7e8f9'' ''20241231T235959Z'' standup None)
       = Inr (''0A1B2C3D4E5F60718293A4B5C6D7E8F9'',
              ''/123/calendars/work/0A1B2C3D4E5F60718293A4B5C6D7E8F9.ics'')"
  using create_put [of example_cfg None "respond \<lparr> status_code = 201, resp_text = [], reason = ''Created'' \<rparr>" "[]"
      standup "''0a1b2c3d4e5f60718293a4b5c6d7e8f9''" "''20241231T235959Z''"
      "\<lparr> status_code = 201, resp_text = [], reason = ''Created'' \<rparr>"]
  by (simp add: require_key_example respond_def example_cfg_simps create_uid_def opt_or_def str_or_def
      upper_hex standup_def resolve_def startswith_any_def)

text \<open>A 412 with an empty body: the error carries the reason phrase, which is not the body text.\<close>

theorem create_empty_body_counterexample:
  "fst (create example_cfg (respond \<lparr> status_code = 412, resp_text = [], reason = ''Precondition Failed'' \<rparr>) []
          ''0a1b2c3d4e5f60718293a4b5c6d7e8f9'' ''20241231T235959Z'' standup None)
     = Inl (PutRejected 412 ''Precondition Failed'')
   \<and> ''Precondition Failed'' \<noteq> resp_text \<lparr> status_code = 412, resp_text = [], reason = ''Precondition Failed'' \<rparr>"
  by (simp add: create_def require_key_example respond_def str_or_def Let_def)

section \<open>The generated event document\<close>

lemma create_ics_lines:
  "create_ics ev u ts =
     ''BEGIN:VCALENDAR'' @ CRLF @ ''VERSION:2.0'' @ CRLF @ ''PRODID:-//Clockwork//Study//EN'' @ CRLF @
     ''CALSCALE:GREGORIAN'' @ CRLF @ ''BEGIN:VEVENT'' @ CRLF @ (''UID:'' @ u @ ''@clockwork'') @ CRLF @
     (''DTSTAMP:'' @ ts) @ CRLF @ (''DTSTART:'' @ dtstart_z ev) @ CRLF @ (''DTEND:'' @ dtend_z ev) @ CRLF @
     (''SUMMARY:'' @ summary ev) @ CRLF @
     (''DESCRIPTION:'' @ escape_newlines (opt_or (description ev) [])) @ CRLF @
     ''END:VEVENT'' @ CRLF @ ''END:VCALENDAR'' @ CRLF"
  by (simp add: create_ics_def create_lines_def Let_def replace_newline)

text \<open>
  C7. The DESCRIPTION line of the generated document is \<open>DESCRIPTION:\<close> followed by the
  description with every LF rendered as backslash and \<open>n\<close> and every other character
  (commas and semicolons included) left as it is; the line holds no LF, and a description
  without LF is copied unchanged.
\<close>

theorem description_newlines_escaped:
  "create_lines ev u ts ! 10 = ''DESCRIPTION:'' @ escape_newlines (opt_or (description ev) [])
   \<and> create_ics ev u ts
       = concat (map (\<lambda>l. l @ CRLF) (take 10 (create_lines ev u ts)))
         @ ''DESCRIPTION:'' @ escape_newlines (opt_or (description ev) []) @ CRLF
         @ ''END:VEVENT'' @ CRLF @ ''END:VCALENDAR'' @ CRLF
   \<and> LF \<notin> set (''DESCRIPTION:'' @ escape_newlines (opt_or (description ev) []))
   \<and> (LF \<notin> set (opt_or (description ev) []) \<longrightarrow>
        create_lines ev u ts ! 10 = ''DESCRIPTION:'' @ opt_or (description ev) [])"
proof -
  have line: "create_lines ev u ts ! 10 = ''DESCRIPTION:'' @ escape_newlines (opt_or (description ev) [])"
    by (simp add: create_lines_def Let_def replace_newline)
  have doc: "create_ics ev u ts
       = concat (map (\<lambda>l. l @ CRLF) (take 10 (create_lines ev u ts)))
         @ ''DESCRIPTION:'' @ escape_newlines (opt_or (description ev) []) @ CRLF
         @ ''END:VEVENT'' @ CRLF @ ''END:VCALENDAR'' @ CRLF"
    by (simp add: create_ics_def create_lines_def Let_def replace_newline)
  have nolf: "LF \<notin> set (''DESCRIPTION:'' @ escape_newlines (opt_or (description ev) []))"
    using LF_notin_escape [of "opt_or (description ev) []"] by (simp add: LF_def)
  have same: "LF \<notin> set (opt_or (description ev) []) \<longrightarrow>
        create_lines ev u ts ! 10 = ''DESCRIPTION:'' @ opt_or (description ev) []"
    using line escape_no_newline [of "opt_or (description ev) []"] by simp
  from line doc nolf same show ?thesis by blast
qed

theorem description_newlines_escaped_witness:
  "create_lines release_notes ''ABC'' ''20241231T235959Z'' ! 10
     = ''DESCRIPTION:a,b;c'' @ [BACKSLASH, CHR ''n''] @ ''d''"
  using description_newlines_escaped [of release_notes "''ABC''" "''20241231T235959Z''"]
  by (simp add: release_notes_def opt_or_def str_or_def escape_newlines_def LF_def)

lemma create_log:
  "require_key cfg k = Inr () \<Longrightarrow>
   snd (create cfg srv log hex ts ev k)
     = log @ [\<lparr> verb = ''PUT'',
                 url = resolve (BASE cfg) (calendar_href ev) @ create_uid ev hex @ ''.ics'',
                 headers = [(''Content-Type'', ''text/calendar; charset=utf-8''), (''If-None-Match'', ''*'')],
                 data = Some (create_ics ev (create_uid ev hex) ts),
                 auth = (APPLE_ID cfg, APPLE_PW cfg) \<rparr>]"
  by (simp add: create_def Let_def split: sum.splits)

lemma no_bare_lf_ics:
  assumes "LF \<notin> set u" "LF \<notin> set ts" "LF \<notin> set (dtstart_z ev)" "LF \<notin> set (dtend_z ev)"
    "LF \<notin> set (summary ev)"
  shows "\<not> has_bare_lf (create_ics ev u ts)"
proof -
  have l1: "LF \<notin> set ''BEGIN:VCALENDAR''" "LF \<notin> set ''VERSION:2.0''"
    "LF \<notin> set ''PRODID:-//Clockwork//Study//EN''" "LF \<notin> set ''CALSCALE:GREGORIAN''"
    "LF \<notin> set ''BEGIN:VEVENT''" "LF \<notin> set ''END:VEVENT''" "LF \<notin> set ''END:VCALENDAR''"
    by (simp_all add: LF_def)
  have l2: "LF \<notin> set (''UID:'' @ u @ ''@clockwork'')" "LF \<notin> set (''DTSTAMP:'' @ ts)"
    "LF \<notin> set (''DTSTART:'' @ dtstart_z ev)" "LF \<notin> set (''DTEND:'' @ dtend_z ev)"
    "LF \<notin> set (''SUMMARY:'' @ summary ev)"
    "LF \<notin> set (''DESCRIPTION:'' @ escape_newlines (opt_or (description ev) []))"
    using assms LF_notin_escape [of "opt_or (description ev) []"] by (simp_all add: LF_def)
  have step: "\<And>l b rest. LF \<notin> set l \<Longrightarrow> bare_lf_after b (l @ CRLF @ rest) = bare_lf_after False rest"
    using bare_lf_line by (simp add: CRLF_def)
  have "bare_lf_after False (create_ics ev u ts) = bare_lf_after False []"
    unfolding create_ics_lines
    using step [OF l1(1)] step [OF l1(2)] step [OF l1(3)] step [OF l1(4)] step [OF l1(5)]
      step [OF l2(1)] step [OF l2(2)] step [OF l2(3)] step [OF l2(4)] step [OF l2(5)] step [OF l2(6)]
      step [OF l1(6)] step [OF l1(7), of False "[]"]
    by (simp only: append_assoc append_Nil2)
  then show ?thesis by (simp add: has_bare_lf_def)
qed

lemma create_ics_butlast:
  "create_ics ev u ts = concat (map (\<lambda>l. l @ CRLF) (butlast (create_lines ev u ts)))"
  by (simp add: create_ics_def create_lines_def Let_def)

text \<open>
  C8 (as amended). The document sent by \<open>create\<close> is a function of summary, start, end,
  description, UID and timestamp alone: two runs that agree on them send the same body,
  whatever the configuration, the server, the calendar href and the request history. Each of
  the thirteen lines of the document is followed by CRLF, and when the UID, the timestamp,
  the start, the end and the summary hold no LF, the document holds no LF that does not
  directly follow a CR.
\<close>

theorem ics_deterministic_crlf:
  assumes "require_key cfg k = Inr ()" and "require_key cfg' k' = Inr ()"
    and "summary ev' = summary ev" and "dtstart_z ev' = dtstart_z ev" and "dtend_z ev' = dtend_z ev"
    and "description ev' = description ev" and "create_uid ev' hex' = create_uid ev hex"
  shows "data (last (snd (create cfg srv log hex ts ev k))) = Some (create_ics ev (create_uid ev hex) ts)
       \<and> data (last (snd (create cfg' srv' log' hex' ts ev' k')))
           = data (last (snd (create cfg srv log hex ts ev k)))
       \<and> create_ics ev (create_uid ev hex) ts
           = concat (map (\<lambda>l. l @ CRLF) (butlast (create_lines ev (create_uid ev hex) ts)))
       \<and> (LF \<notin> set (create_uid ev hex) \<and> LF \<notin> set ts \<and> LF \<notin> set (dtstart_z ev)
            \<and> LF \<notin> set (dtend_z ev) \<and> LF \<notin> set (summary ev)
          \<longrightarrow> \<not> has_bare_lf (create_ics ev (create_uid ev hex) ts))"
proof -
  have a: "data (last (snd (create cfg srv log hex ts ev k))) = Some (create_ics ev (create_uid ev hex) ts)"
    using assms(1) by (simp add: create_log)
  have b: "data (last (snd (create cfg' srv' log' hex' ts ev' k'))) = Some (create_ics ev' (create_uid ev' hex') ts)"
    using assms(2) by (simp add: create_log)
  have c: "create_ics ev' (create_uid ev' hex') ts = create_ics ev (create_uid ev hex) ts"
    using assms(3-7) by (simp add: create_ics_lines)
  show ?thesis
    using a b c create_ics_butlast [of ev "create_uid ev hex" ts] no_bare_lf_ics [of "create_uid ev hex" ts ev]
    by simp
qed

lemma create_uid_standup: "create_uid standup ''0a1b2c3d4e5f60718293a4b5c6d7e8f9'' = ''0A1B2C3D4E5F60718293A4B5C6D7E8F9''"
  by (simp add: create_uid_def standup_def opt_or_def upper_hex)

theorem ics_deterministic_crlf_witness:
  "require_key example_cfg None = Inr ()
   \<and> summary standup_elsewhere = summary standup
   \<and> create_uid standup_elsewhere ''0a1b2c3d4e5f60718293a4b5c6d7e8f9'' = create_uid standup ''0a1b2c3d4e5f60718293a4b5c6d7e8f9''
   \<and> data (last (snd (create example_cfg (respond conflict) [] ''0a1b2c3d4e5f60718293a4b5c6d7e8f9''
                        ''20241231T235959Z'' standup_elsewhere None)))
       = data (last (snd (create example_cfg (respond created) [] ''0a1b2c3d4e5f60718293a4b5c6d7e8f9''
                        ''20241231T235959Z'' standup None)))
   \<and> \<not> has_bare_lf (create_ics standup ''0A1B2C3D4E5F60718293A4B5C6D7E8F9'' ''20241231T235959Z'')"
proof -
  have u: "create_uid standup_elsewhere ''0a1b2c3d4e5f60718293a4b5c6d7e8f9''
             = create_uid standup ''0a1b2c3d4e5f60718293a4b5c6d7e8f9''"
    by (simp add: create_uid_def standup_elsewhere_def)
  have s: "summary standup_elsewhere = summary standup" "dtstart_z standup_elsewhere = dtstart_z standup"
    "dtend_z standup_elsewhere = dtend_z standup" "description standup_elsewhere = description standup"
    by (simp_all add: standup_elsewhere_def)
  have n1: "LF \<notin> set (create_uid standup ''0a1b2c3d4e5f60718293a4b5c6d7e8f9'')"
    by (simp add: create_uid_standup LF_def)
  have n2: "LF \<notin> set ''20241231T235959Z''" "LF \<notin> set (dtstart_z standup)"
    "LF \<notin> set (dtend_z standup)" "LF \<notin> set (summary standup)"
    by (simp_all add: standup_def LF_def)
  note n = n1 n2
  note t = ics_deterministic_crlf [of example_cfg None example_cfg None standup_elsewhere standup
      "''0a1b2c3d4e5f60718293a4b5c6d7e8f9''" "''0a1b2c3d4e5f60718293a4b5c6d7e8f9''"
      "respond created" "[]" "''20241231T235959Z''" "respond conflict" "[]",
      OF require_key_example require_key_example s u]
  from t have same: "data (last (snd (create example_cfg (respond conflict) [] ''0a1b2c3d4e5f60718293a4b5c6d7e8f9''
                        ''20241231T235959Z'' standup_elsewhere None)))
       = data (last (snd (create example_cfg (respond created) [] ''0a1b2c3d4e5f60718293a4b5c6d7e8f9''
                        ''20241231T235959Z'' standup None)))"
    by blast
  from t n have "\<not> has_bare_lf (create_ics standup (create_uid standup ''0a1b2c3d4e5f60718293a4b5c6d7e8f9'')
                        ''20241231T235959Z'')"
    by blast
  then have nb: "\<not> has_bare_lf (create_ics standup ''0A1B2C3D4E5F60718293A4B5C6D7E8F9'' ''20241231T235959Z'')"
    unfolding create_uid_standup .
  from require_key_example s(1) u same nb show ?thesis by blast
qed

text \<open>A summary with an embedded LF is copied as it is: the document then holds a bare LF.\<close>

theorem summary_newline_counterexample:
  "data (last (snd (create example_cfg (respond created) [] ''0a1b2c3d4e5f60718293a4b5c6d7e8f9''
                      ''20241231T235959Z'' two_line_summary None)))
     = Some (create_ics two_line_summary ''ABC'' ''20241231T235959Z'')
   \<and> has_bare_lf (create_ics two_line_summary ''ABC'' ''20241231T235959Z'')"
proof -
  have u: "create_uid two_line_summary ''0a1b2c3d4e5f60718293a4b5c6d7e8f9'' = ''ABC''"
    by (simp add: create_uid_def two_line_summary_def opt_or_def str_or_def upper_def upper_char_def upper_table_def)
  have d: "data (last (snd (create example_cfg (respond created) [] ''0a1b2c3d4e5f60718293a4b5c6d7e8f9''
                      ''20241231T235959Z'' two_line_summary None)))
     = Some (create_ics two_line_summary ''ABC'' ''20241231T235959Z'')"
    by (simp add: create_log require_key_example u)
  have b: "has_bare_lf (create_ics two_line_summary ''ABC'' ''20241231T235959Z'')"
    by (simp add: has_bare_lf_def create_ics_lines two_line_summary_def CRLF_def LF_def CR_def
        opt_or_def escape_newlines_def)
  from d b show ?thesis by simp
qed







section \<open>Calendar listing and event query as map and filter\<close>

lemma calendar_items_acc:
  "calendar_items rs acc = acc @ map calendar_entry (filter is_calendar_entry rs)"
proof (induction rs arbitrary: acc)
  case Nil
  show ?case by simp
next
  case (Cons r rs)
  show ?case
    by (cases "find_el r [Child (d_tag ''href'')]"; cases "find_el r [Descendant (d_tag ''displayname'')]")
       (simp_all add: Cons is_calendar_entry_def calendar_entry_def href_text_def displayname_text_def Let_def)
qed

lemma event_items_acc:
  "event_items rs acc = acc @ map event_entry (filter is_event_entry rs)"
proof (induction rs arbitrary: acc)
  case Nil
  show ?case by simp
next
  case (Cons r rs)
  show ?case
    by (cases "find_el r [Child (d_tag ''href'')]"; cases "find_el r [Descendant (c_tag ''calendar-data'')]")
       (simp_all add: Cons is_event_entry_def event_entry_def href_text_def calendar_data_text_def Let_def)
qed

lemma strip_examples:
  "strip ''/123/calendars/work/'' = ''/123/calendars/work/''"
  "strip ''Work'' = ''Work''"
  "strip ''/123/calendars/work/ABC.ics'' = ''/123/calendars/work/ABC.ics''"
  "strip ''/123/calendars/work/DEF.ics'' = ''/123/calendars/work/DEF.ics''"
  "strip ''/123/calendars/inbox/'' = ''/123/calendars/inbox/''"
  "strip ''BEGIN:VCALENDAR'' = ''BEGIN:VCALENDAR''"
  "strip ''/123/calendars/home/'' = ''/123/calendars/home/''"
  "strip [] = []"
  by (simp_all add: strip_def lstrip_def rstrip_def is_space_def CRLF_def CR_def LF_def)

lemma strip_sample_ics:
  "strip sample_ics = ''BEGIN:VCALENDAR'' @ CRLF @ ''END:VCALENDAR''"
  "opt_or (Some sample_ics) [] = sample_ics"
  by (simp_all add: sample_ics_def strip_def lstrip_def rstrip_def is_space_def CRLF_def CR_def LF_def
      opt_or_def str_or_def)

lemma findall_scenario_b:
  "findall scenario_b_doc [Descendant (d_tag ''response'')] = [work_response, unnamed_response]"
  by (simp add: findall_def scenario_b_doc_def descendants_def work_response_def unnamed_response_def d_tag_def)

lemma findall_empty_href:
  "findall empty_href_doc [Descendant (d_tag ''response'')] = [empty_href_response, empty_name_response]"
  by (simp add: findall_def empty_href_doc_def descendants_def empty_href_response_def empty_name_response_def d_tag_def)

lemma findall_events_doc:
  "findall events_doc [Descendant (d_tag ''response'')]
     = [no_data_response, empty_href_event_response, event_response]"
  by (simp add: findall_def events_doc_def descendants_def no_data_response_def event_response_def
      empty_href_event_response_def d_tag_def c_tag_def)

lemma calendar_items_scenario_b:
  "calendar_items [work_response, unnamed_response] [] = [(''/123/calendars/work/'', ''Work'')]"
  by (simp add: work_response_def unnamed_response_def find_el_def findall_def descendants_def d_tag_def
      opt_or_def str_or_def strip_examples)

text \<open>
  Two responses that each hold an \<open>href\<close> and a \<open>displayname\<close> element: the first has an
  empty href, the second an empty displayname. Both contain the two elements, neither has
  two non-empty values, and the listing returns one entry.
\<close>

lemma empty_href_response_facts:
  "has_href_and_displayname empty_href_response"
  "has_href_and_displayname empty_name_response"
  "\<not> has_nonempty_href_and_displayname empty_href_response"
  "\<not> has_nonempty_href_and_displayname empty_name_response"
  "calendar_items [empty_href_response, empty_name_response] [] = [(''/123/calendars/home/'', [])]"
  by (simp_all add: has_href_and_displayname_def has_nonempty_href_and_displayname_def href_text_def
      displayname_text_def empty_href_response_def empty_name_response_def find_el_def findall_def
      descendants_def d_tag_def opt_or_def str_or_def strip_examples)

theorem empty_href_calendar_counterexample:
  "length (findall empty_href_doc [Descendant (d_tag ''response'')]) = 2
   \<and> length (filter has_href_and_displayname (findall empty_href_doc [Descendant (d_tag ''response'')])) = 2
   \<and> length (filter has_nonempty_href_and_displayname (findall empty_href_doc [Descendant (d_tag ''response'')])) = 0
   \<and> calendar_items (findall empty_href_doc [Descendant (d_tag ''response'')]) []
       = [(''/123/calendars/home/'', [])]"
proof -
  have "filter has_href_and_displayname [empty_href_response, empty_name_response]
          = [empty_href_response, empty_name_response]"
    using empty_href_response_facts(1,2) by simp
  moreover have "filter has_nonempty_href_and_displayname [empty_href_response, empty_name_response] = []"
    using empty_href_response_facts(3,4) by simp
  ultimately show ?thesis
    unfolding findall_empty_href empty_href_response_facts(5) by simp
qed

lemma event_items_events_doc:
  "event_items [no_data_response, empty_href_event_response, event_response] []
     = [(''/123/calendars/work/ABC.ics'', ''BEGIN:VCALENDAR'' @ CRLF @ ''END:VCALENDAR'')]"
  by (simp add: no_data_response_def empty_href_event_response_def event_response_def find_el_def findall_def
      descendants_def d_tag_def c_tag_def strip_sample_ics opt_or_def str_or_def strip_examples CRLF_def)

section \<open>Calendar listing: one retry with the standard namespace\<close>

lemma replace_step_skip:
  "old \<noteq> [] \<Longrightarrow> \<not> startswith (c # cs) old \<Longrightarrow> replace old new (c # cs) = c # replace old new cs"
  by (subst replace.simps) simp

lemma replace_step_hit:
  "old \<noteq> [] \<Longrightarrow> startswith (c # cs) old \<Longrightarrow>
   replace old new (c # cs) = new @ replace old new (drop (length old) (c # cs))"
  by (subst replace.simps) simp

lemma replace_Nil: "old \<noteq> [] \<Longrightarrow> replace old new [] = []"
  by (subst replace.simps) simp

lemma calendars_body_fixed:
  "replace ''urn:ietf:ietf:params:xml:ns:caldav'' ''urn:ietf:params:xml:ns:caldav'' calendars_body
     = calendars_body_standard"
  by (simp add: calendars_body_def calendars_body_standard_def text_lines_def
      replace_step_skip replace_step_hit replace_Nil)

lemma bodies_differ: "calendars_body \<noteq> calendars_body_standard"
  by (simp add: calendars_body_def calendars_body_standard_def text_lines_def)

lemma dav_propfind:
  assumes "ensure_env cfg = Inr ()"
  shows "dav cfg srv log ''PROPFIND'' u [(''Depth'', d)] (Some b) True
     = (case srv log (propfind_request cfg u d b) of
          Inl e \<Rightarrow> (Inl (RequestFailed e), log @ [propfind_request cfg u d b])
        | Inr r \<Rightarrow>
            if status_code r \<ge> 400
            then (Inl (Upstream (status_code r) (str_or (resp_text r) (reason r))),
                  log @ [propfind_request cfg u d b])
            else (Inr r, log @ [propfind_request cfg u d b]))"
proof -
  have h: "dict_update [(''Content-Type'', ''application/xml; charset=utf-8'')] [(''Depth'', d)]
             = [(''Content-Type'', ''application/xml; charset=utf-8''), (''Depth'', d)]"
    by (simp add: dict_update_def)
  show ?thesis
    using assms by (simp add: dav_def propfind_request_def h Let_def split: sum.splits)
qed

lemma dav_propfind_log:
  assumes "ensure_env cfg = Inr ()"
  shows "snd (dav cfg srv log ''PROPFIND'' u [(''Depth'', d)] (Some b) True)
           = log @ [propfind_request cfg u d b]"
  by (simp add: dav_propfind [OF assms] split: sum.splits)

lemma do_list_outcome:
  assumes "ensure_env cfg = Inr ()"
  shows "do_list cfg srv log h ns_ok
     = (case srv log (propfind_request cfg (resolve (BASE cfg) h) ''1''
                        (if ns_ok then calendars_body else calendars_body_standard)) of
          Inl e \<Rightarrow> (Inl (RequestFailed e),
                    log @ [propfind_request cfg (resolve (BASE cfg) h) ''1''
                             (if ns_ok then calendars_body else calendars_body_standard)])
        | Inr r \<Rightarrow>
            if status_code r \<ge> 400
            then (Inl (Upstream (status_code r) (str_or (resp_text r) (reason r))),
                  log @ [propfind_request cfg (resolve (BASE cfg) h) ''1''
                           (if ns_ok then calendars_body else calendars_body_standard)])
            else (Inr (resp_text r),
                  log @ [propfind_request cfg (resolve (BASE cfg) h) ''1''
                           (if ns_ok then calendars_body else calendars_body_standard)]))"
  by (cases ns_ok) (simp_all add: do_list_def Let_def dav_propfind [OF assms] calendars_body_fixed split: sum.splits)

text \<open>
  C6. With the credentials configured, calendar listing first sends its PROPFIND with the
  body that names the namespace \<open>urn:ietf:ietf:params:xml:ns:caldav\<close>. If the server accepts
  it (a status below 400), that is the only listing request. If the request fails or is
  rejected, it is sent exactly once more, with the standard namespace in the body, and the
  outcome of that second request is the outcome of the listing, error included. The listing
  never sends more than two requests, and \<open>calendars\<close> sends none after them.
\<close>

theorem listing_retries_once:
  assumes "ensure_env cfg = Inr ()"
  shows "(\<forall>r. srv log (propfind_request cfg (resolve (BASE cfg) h) ''1'' calendars_body) = Inr r
              \<and> status_code r < 400 \<longrightarrow>
            list_with_retry cfg srv log h
              = (Inr (resp_text r), log @ [propfind_request cfg (resolve (BASE cfg) h) ''1'' calendars_body]))
       \<and> ((\<forall>r. srv log (propfind_request cfg (resolve (BASE cfg) h) ''1'' calendars_body) = Inr r
                \<longrightarrow> status_code r \<ge> 400) \<longrightarrow>
            list_with_retry cfg srv log h
              = do_list cfg srv (log @ [propfind_request cfg (resolve (BASE cfg) h) ''1'' calendars_body]) h False
          \<and> snd (list_with_retry cfg srv log h)
              = log @ [propfind_request cfg (resolve (BASE cfg) h) ''1'' calendars_body,
                       propfind_request cfg (resolve (BASE cfg) h) ''1'' calendars_body_standard]
          \<and> (\<forall>e. srv (log @ [propfind_request cfg (resolve (BASE cfg) h) ''1'' calendars_body])
                      (propfind_request cfg (resolve (BASE cfg) h) ''1'' calendars_body_standard) = Inl e
                 \<longrightarrow> fst (list_with_retry cfg srv log h) = Inl (RequestFailed e))
          \<and> (\<forall>r. srv (log @ [propfind_request cfg (resolve (BASE cfg) h) ''1'' calendars_body])
                      (propfind_request cfg (resolve (BASE cfg) h) ''1'' calendars_body_standard) = Inr r
                 \<longrightarrow> fst (list_with_retry cfg srv log h)
                       = (if status_code r \<ge> 400
                          then Inl (Upstream (status_code r) (str_or (resp_text r) (reason r)))
                          else Inr (resp_text r))))
       \<and> length (snd (list_with_retry cfg srv log h)) \<le> length log + 2
       \<and> calendars_body_standard \<noteq> calendars_body
       \<and> (require_key cfg k = Inr () \<and> home cfg parse srv log0 k = (Inr h, log) \<longrightarrow>
            snd (calendars cfg parse srv log0 k) = snd (list_with_retry cfg srv log h))"
proof -
  let ?r1 = "propfind_request cfg (resolve (BASE cfg) h) ''1'' calendars_body"
  let ?r2 = "propfind_request cfg (resolve (BASE cfg) h) ''1'' calendars_body_standard"
  note d1 = do_list_outcome [OF assms, of srv log h True, simplified]
  note d2 = do_list_outcome [OF assms, of srv "log @ [?r1]" h False, simplified]
  have ok: "\<forall>r. srv log ?r1 = Inr r \<and> status_code r < 400 \<longrightarrow>
            list_with_retry cfg srv log h = (Inr (resp_text r), log @ [?r1])"
    by (simp add: list_with_retry_def d1 split: sum.splits)
  have retry: "(\<forall>r. srv log ?r1 = Inr r \<longrightarrow> status_code r \<ge> 400) \<Longrightarrow>
            list_with_retry cfg srv log h = do_list cfg srv (log @ [?r1]) h False"
    by (cases "srv log ?r1") (simp_all add: list_with_retry_def d1)
  have retry_log: "snd (do_list cfg srv (log @ [?r1]) h False) = log @ [?r1, ?r2]"
    by (simp add: d2 split: sum.splits)
  have retry_err: "\<forall>e. srv (log @ [?r1]) ?r2 = Inl e \<longrightarrow>
                     fst (do_list cfg srv (log @ [?r1]) h False) = Inl (RequestFailed e)"
    by (simp add: d2)
  have retry_resp: "\<forall>r. srv (log @ [?r1]) ?r2 = Inr r \<longrightarrow>
                     fst (do_list cfg srv (log @ [?r1]) h False)
                       = (if status_code r \<ge> 400
                          then Inl (Upstream (status_code r) (str_or (resp_text r) (reason r)))
                          else Inr (resp_text r))"
    by (simp add: d2)
  have bound: "length (snd (list_with_retry cfg srv log h)) \<le> length log + 2"
  proof (cases "\<forall>r. srv log ?r1 = Inr r \<longrightarrow> status_code r \<ge> 400")
    case True
    then show ?thesis using retry retry_log by simp
  next
    case False
    then obtain r where "srv log ?r1 = Inr r" "status_code r < 400" by force
    then show ?thesis using ok by simp
  qed
  have diff: "calendars_body_standard \<noteq> calendars_body"
    using bodies_differ by (rule not_sym)
  have op: "require_key cfg k = Inr () \<and> home cfg parse srv log0 k = (Inr h, log) \<longrightarrow>
            snd (calendars cfg parse srv log0 k) = snd (list_with_retry cfg srv log h)"
    by (auto simp: calendars_def split: sum.splits prod.splits)
  have mid: "(\<forall>r. srv log ?r1 = Inr r \<longrightarrow> status_code r \<ge> 400) \<longrightarrow>
            list_with_retry cfg srv log h = do_list cfg srv (log @ [?r1]) h False
          \<and> snd (list_with_retry cfg srv log h) = log @ [?r1, ?r2]
          \<and> (\<forall>e. srv (log @ [?r1]) ?r2 = Inl e
                 \<longrightarrow> fst (list_with_retry cfg srv log h) = Inl (RequestFailed e))
          \<and> (\<forall>r. srv (log @ [?r1]) ?r2 = Inr r
                 \<longrightarrow> fst (list_with_retry cfg srv log h)
                       = (if status_code r \<ge> 400
                          then Inl (Upstream (status_code r) (str_or (resp_text r) (reason r)))
                          else Inr (resp_text r)))"
  proof
    assume "\<forall>r. srv log ?r1 = Inr r \<longrightarrow> status_code r \<ge> 400"
    then have eq: "list_with_retry cfg srv log h = do_list cfg srv (log @ [?r1]) h False"
      by (rule retry)
    show "list_with_retry cfg srv log h = do_list cfg srv (log @ [?r1]) h False
          \<and> snd (list_with_retry cfg srv log h) = log @ [?r1, ?r2]
          \<and> (\<forall>e. srv (log @ [?r1]) ?r2 = Inl e
                 \<longrightarrow> fst (list_with_retry cfg srv log h) = Inl (RequestFailed e))
          \<and> (\<forall>r. srv (log @ [?r1]) ?r2 = Inr r
                 \<longrightarrow> fst (list_with_retry cfg srv log h)
                       = (if status_code r \<ge> 400
                          then Inl (Upstream (status_code r) (str_or (resp_text r) (reason r)))
                          else Inr (resp_text r)))"
      unfolding eq using retry_log retry_err retry_resp by blast
  qed
  show ?thesis
    by (intro conjI) (rule ok mid bound diff op)+
qed

lemma ensure_env_example: "ensure_env example_cfg = Inr ()"
  by (simp add: ensure_env_def example_cfg_simps opt_or_def str_or_def)

theorem listing_retries_once_witness:
  "ensure_env example_cfg = Inr ()
   \<and> list_with_retry example_cfg (script [Inr rejected, Inr listed]) [] ''/123/calendars/''
       = (Inr (resp_text listed),
          [propfind_request example_cfg ''https://caldav.icloud.com/123/calendars/'' ''1'' calendars_body,
           propfind_request example_cfg ''https://caldav.icloud.com/123/calendars/'' ''1'' calendars_body_standard])"
proof -
  let ?srv = "script [Inr rejected, Inr listed]"
  have u: "resolve (BASE example_cfg) ''/123/calendars/'' = ''https://caldav.icloud.com/123/calendars/''"
    by (simp add: resolve_def startswith_any_def example_cfg_simps)
  note t = listing_retries_once [OF ensure_env_example, of ?srv "[]" "''/123/calendars/''", unfolded u]
  have first: "\<forall>r. ?srv [] (propfind_request example_cfg ''https://caldav.icloud.com/123/calendars/'' ''1'' calendars_body) = Inr r
                \<longrightarrow> status_code r \<ge> 400"
    by (simp add: script_def rejected_def)
  have second: "?srv ([] @ [propfind_request example_cfg ''https://caldav.icloud.com/123/calendars/'' ''1'' calendars_body])
                  (propfind_request example_cfg ''https://caldav.icloud.com/123/calendars/'' ''1'' calendars_body_standard)
                  = Inr listed"
    by (simp add: script_def)
  from t first have l: "snd (list_with_retry example_cfg ?srv [] ''/123/calendars/'')
       = [] @ [propfind_request example_cfg ''https://caldav.icloud.com/123/calendars/'' ''1'' calendars_body,
           propfind_request example_cfg ''https://caldav.icloud.com/123/calendars/'' ''1'' calendars_body_standard]"
    by blast
  from t first second have "fst (list_with_retry example_cfg ?srv [] ''/123/calendars/'')
       = (if status_code listed \<ge> 400
          then Inl (Upstream (status_code listed) (str_or (resp_text listed) (reason listed)))
          else Inr (resp_text listed))"
    by blast
  then have f: "fst (list_with_retry example_cfg ?srv [] ''/123/calendars/'') = Inr (resp_text listed)"
    by (simp add: listed_def)
  from f l have "list_with_retry example_cfg ?srv [] ''/123/calendars/''
       = (Inr (resp_text listed),
          [propfind_request example_cfg ''https://caldav.icloud.com/123/calendars/'' ''1'' calendars_body,
           propfind_request example_cfg ''https://caldav.icloud.com/123/calendars/'' ''1'' calendars_body_standard])"
    by (simp add: prod_eq_iff)
  with ensure_env_example show ?thesis by blast
qed

section \<open>Principal discovery: three attempts in order\<close>

lemma first_text_nonempty: "first_text root xps = Some v \<Longrightarrow> v \<noteq> []"
  by (induction xps) (auto split: option.splits if_splits)

lemma extract_nonempty: "extract_principal_href parse xml = Inr (Some v) \<Longrightarrow> v \<noteq> []"
  by (auto simp: extract_principal_href_def parse_xml_def first_text_nonempty split: option.splits)

lemma extract_not_NoPrincipal: "extract_principal_href parse xml \<noteq> Inl NoPrincipal"
  by (auto simp: extract_principal_href_def parse_xml_def split: option.splits)

lemma attempt_propfind:
  assumes "ensure_env cfg = Inr ()"
  shows "attempt cfg parse srv log (propfind_request cfg u ''0'' b)
     = (case dav cfg srv log ''PROPFIND'' u [(''Depth'', ''0'')] (Some b) True of
          (Inl e, _) \<Rightarrow> Inl e
        | (Inr r, _) \<Rightarrow> extract_principal_href parse (resp_text r))"
  by (simp add: attempt_def propfind_request_def)

lemma attempt_nonempty:
  "attempt cfg parse srv log req = Inr (Some v) \<Longrightarrow> v \<noteq> []"
  by (auto simp: attempt_def extract_nonempty split: prod.splits sum.splits)

lemma attempt_not_NoPrincipal:
  assumes "ensure_env cfg = Inr ()"
  shows "attempt cfg parse srv log (propfind_request cfg u ''0'' b) \<noteq> Inl NoPrincipal"
  using extract_not_NoPrincipal
  by (auto simp: attempt_propfind [OF assms] dav_propfind [OF assms] split: prod.splits sum.splits if_splits)

lemma principal_loop_step:
  assumes "ensure_env cfg = Inr ()"
  shows "principal_loop cfg parse srv log (p # ps)
     = (case attempt cfg parse srv log (propfind_request cfg (BASE cfg @ p) ''0'' principal_body) of
          Inl e \<Rightarrow> (Inl e, log @ [propfind_request cfg (BASE cfg @ p) ''0'' principal_body])
        | Inr (Some h) \<Rightarrow> (Inr (Some h), log @ [propfind_request cfg (BASE cfg @ p) ''0'' principal_body])
        | Inr None \<Rightarrow>
            principal_loop cfg parse srv (log @ [propfind_request cfg (BASE cfg @ p) ''0'' principal_body]) ps)"
proof -
  let ?d = "dav cfg srv log ''PROPFIND'' (BASE cfg @ p) [(''Depth'', ''0'')] (Some principal_body) True"
  obtain res log' where d: "?d = (res, log')" by (cases ?d)
  have l: "log' = log @ [propfind_request cfg (BASE cfg @ p) ''0'' principal_body]"
    using dav_propfind_log [OF assms, of srv log "BASE cfg @ p" "''0''" principal_body] d by simp
  show ?thesis
  proof (cases res)
    case (Inl e)
    then show ?thesis by (simp add: attempt_propfind [OF assms] d l)
  next
    case (Inr r)
    show ?thesis
    proof (cases "extract_principal_href parse (resp_text r)")
      case (Inl e)
      then show ?thesis using Inr by (simp add: attempt_propfind [OF assms] d l)
    next
      case x: (Inr href)
      show ?thesis
      proof (cases href)
        case None
        then show ?thesis using Inr x by (simp add: attempt_propfind [OF assms] d l opt_or_def)
      next
        case (Some h)
        then have "h \<noteq> []" using x extract_nonempty by blast
        then show ?thesis using Inr x Some
          by (simp add: attempt_propfind [OF assms] d l opt_or_def str_or_def)
      qed
    qed
  qed
qed

lemma principal_fallback_step:
  assumes "ensure_env cfg = Inr ()"
  shows "(case dav cfg srv log ''PROPFIND'' (BASE cfg @ ''/'') [(''Depth'', ''0'')] (Some principal_body2) True of
            (Inl e, log'') \<Rightarrow> (Inl e, log'')
          | (Inr r, log'') \<Rightarrow>
              (case extract_principal_href parse (resp_text r) of
                 Inl e \<Rightarrow> (Inl e, log'')
               | Inr href \<Rightarrow>
                   if opt_or href [] \<noteq> [] then (Inr (opt_or href []), log'')
                   else (Inl NoPrincipal, log'')))
     = (case attempt cfg parse srv log (fallback_request cfg) of
          Inl e \<Rightarrow> (Inl e, log @ [fallback_request cfg])
        | Inr (Some h) \<Rightarrow> (Inr h, log @ [fallback_request cfg])
        | Inr None \<Rightarrow> (Inl NoPrincipal, log @ [fallback_request cfg]))"
proof -
  let ?d = "dav cfg srv log ''PROPFIND'' (BASE cfg @ ''/'') [(''Depth'', ''0'')] (Some principal_body2) True"
  obtain res log' where d: "?d = (res, log')" by (cases ?d)
  have l: "log' = log @ [fallback_request cfg]"
    using dav_propfind_log [OF assms, of srv log "BASE cfg @ ''/''" "''0''" principal_body2] d
    by (simp add: fallback_request_def)
  note a = attempt_propfind [OF assms, of parse srv log "BASE cfg @ ''/''" principal_body2,
      folded fallback_request_def]
  show ?thesis
  proof (cases res)
    case (Inl e)
    then show ?thesis by (simp add: a d l)
  next
    case (Inr r)
    show ?thesis
    proof (cases "extract_principal_href parse (resp_text r)")
      case (Inl e)
      then show ?thesis using Inr by (simp add: a d l)
    next
      case x: (Inr href)
      show ?thesis
      proof (cases href)
        case None
        then show ?thesis using Inr x by (simp add: a d l opt_or_def)
      next
        case (Some h)
        then have "h \<noteq> []" using x extract_nonempty by blast
        then show ?thesis using Inr x Some by (simp add: a d l opt_or_def str_or_def)
      qed
    qed
  qed
qed

lemma principal_unfold:
  assumes "require_key cfg k = Inr ()" and "ensure_env cfg = Inr ()"
  shows "principal cfg parse srv log k
     = (case attempt cfg parse srv log (wellknown_request cfg) of
          Inl e \<Rightarrow> (Inl e, log @ [wellknown_request cfg])
        | Inr (Some h) \<Rightarrow> (Inr h, log @ [wellknown_request cfg])
        | Inr None \<Rightarrow>
            (case attempt cfg parse srv (log @ [wellknown_request cfg]) (root_request cfg) of
               Inl e \<Rightarrow> (Inl e, log @ [wellknown_request cfg, root_request cfg])
             | Inr (Some h) \<Rightarrow> (Inr h, log @ [wellknown_request cfg, root_request cfg])
             | Inr None \<Rightarrow>
                 (case attempt cfg parse srv (log @ [wellknown_request cfg, root_request cfg])
                         (fallback_request cfg) of
                    Inl e \<Rightarrow> (Inl e, log @ [wellknown_request cfg, root_request cfg, fallback_request cfg])
                  | Inr (Some h) \<Rightarrow>
                      (Inr h, log @ [wellknown_request cfg, root_request cfg, fallback_request cfg])
                  | Inr None \<Rightarrow>
                      (Inl NoPrincipal,
                       log @ [wellknown_request cfg, root_request cfg, fallback_request cfg]))))"
proof -
  note s1 = principal_loop_step [OF assms(2), of parse srv log "''/.well-known/caldav''" "[''/'']",
      folded wellknown_request_def]
  note s2 = principal_loop_step [OF assms(2), of parse srv "log @ [wellknown_request cfg]" "''/''" "[]",
      folded root_request_def]
  note s3 = principal_fallback_step [OF assms(2),
      where srv = srv and log = "log @ [wellknown_request cfg, root_request cfg]" and parse = parse]
  show ?thesis
  proof (cases "attempt cfg parse srv log (wellknown_request cfg)")
    case (Inl e)
    then show ?thesis by (simp add: principal_def assms(1) s1 del: principal_loop.simps(2))
  next
    case a1: (Inr h1)
    show ?thesis
    proof (cases h1)
      case (Some h)
      then show ?thesis using a1 by (simp add: principal_def assms(1) s1 del: principal_loop.simps(2))
    next
      case None
      note n1 = None
      show ?thesis
      proof (cases "attempt cfg parse srv (log @ [wellknown_request cfg]) (root_request cfg)")
        case (Inl e)
        then show ?thesis using a1 n1 by (simp add: principal_def assms(1) s1 s2 del: principal_loop.simps(2))
      next
        case a2: (Inr h2)
        show ?thesis
        proof (cases h2)
          case (Some h)
          then show ?thesis using a1 n1 a2 by (simp add: principal_def assms(1) s1 s2 del: principal_loop.simps(2))
        next
          case None
          have "principal cfg parse srv log k
                 = (case dav cfg srv (log @ [wellknown_request cfg, root_request cfg]) ''PROPFIND''
                           (BASE cfg @ ''/'') [(''Depth'', ''0'')] (Some principal_body2) True of
                      (Inl e, log'') \<Rightarrow> (Inl e, log'')
                    | (Inr r, log'') \<Rightarrow>
                        (case extract_principal_href parse (resp_text r) of
                           Inl e \<Rightarrow> (Inl e, log'')
                         | Inr href \<Rightarrow>
                             if opt_or href [] \<noteq> [] then (Inr (opt_or href []), log'')
                             else (Inl NoPrincipal, log'')))"
            using a1 n1 a2 None by (simp add: principal_def assms(1) s1 s2 del: principal_loop.simps(2))
          then show ?thesis using a1 n1 a2 None by (simp only: s3) (simp split: sum.splits option.splits)
        qed
      qed
    qed
  qed
qed

text \<open>
  C1. With the API key accepted and the credentials configured, principal discovery sends
  the well-known request first; if that yields no href (and no error) it sends the root
  request; if that yields none either it sends the \<open>principal-URL\<close> request to the root. It
  returns the href of the first attempt that yields one, which is never empty, and sends
  nothing after it. It fails with the principal-discovery error if and only if all three
  attempts were made and each yielded no href; an error raised by an attempt itself ends
  the discovery with that error.
\<close>

theorem principal_three_attempts:
  assumes "require_key cfg k = Inr ()" and "ensure_env cfg = Inr ()"
  shows "principal cfg parse srv log k
     = (case attempt cfg parse srv log (wellknown_request cfg) of
          Inl e \<Rightarrow> (Inl e, log @ [wellknown_request cfg])
        | Inr (Some h) \<Rightarrow> (Inr h, log @ [wellknown_request cfg])
        | Inr None \<Rightarrow>
            (case attempt cfg parse srv (log @ [wellknown_request cfg]) (root_request cfg) of
               Inl e \<Rightarrow> (Inl e, log @ [wellknown_request cfg, root_request cfg])
             | Inr (Some h) \<Rightarrow> (Inr h, log @ [wellknown_request cfg, root_request cfg])
             | Inr None \<Rightarrow>
                 (case attempt cfg parse srv (log @ [wellknown_request cfg, root_request cfg])
                         (fallback_request cfg) of
                    Inl e \<Rightarrow> (Inl e, log @ [wellknown_request cfg, root_request cfg, fallback_request cfg])
                  | Inr (Some h) \<Rightarrow>
                      (Inr h, log @ [wellknown_request cfg, root_request cfg, fallback_request cfg])
                  | Inr None \<Rightarrow>
                      (Inl NoPrincipal,
                       log @ [wellknown_request cfg, root_request cfg, fallback_request cfg]))))
   \<and> (fst (principal cfg parse srv log k) = Inl NoPrincipal
        \<longleftrightarrow> attempt cfg parse srv log (wellknown_request cfg) = Inr None
          \<and> attempt cfg parse srv (log @ [wellknown_request cfg]) (root_request cfg) = Inr None
          \<and> attempt cfg parse srv (log @ [wellknown_request cfg, root_request cfg]) (fallback_request cfg)
              = Inr None)
   \<and> (\<forall>h. fst (principal cfg parse srv log k) = Inr h \<longrightarrow>
          h \<noteq> []
          \<and> (attempt cfg parse srv log (wellknown_request cfg) = Inr (Some h)
             \<or> attempt cfg parse srv log (wellknown_request cfg) = Inr None
               \<and> attempt cfg parse srv (log @ [wellknown_request cfg]) (root_request cfg) = Inr (Some h)
             \<or> attempt cfg parse srv log (wellknown_request cfg) = Inr None
               \<and> attempt cfg parse srv (log @ [wellknown_request cfg]) (root_request cfg) = Inr None
               \<and> attempt cfg parse srv (log @ [wellknown_request cfg, root_request cfg])
                     (fallback_request cfg) = Inr (Some h)))"
proof -
  let ?a1 = "attempt cfg parse srv log (wellknown_request cfg)"
  let ?a2 = "attempt cfg parse srv (log @ [wellknown_request cfg]) (root_request cfg)"
  let ?a3 = "attempt cfg parse srv (log @ [wellknown_request cfg, root_request cfg]) (fallback_request cfg)"
  note u = principal_unfold [OF assms, of parse srv log]
  have n1: "?a1 \<noteq> Inl NoPrincipal"
    unfolding wellknown_request_def by (rule attempt_not_NoPrincipal [OF assms(2)])
  have n2: "?a2 \<noteq> Inl NoPrincipal"
    unfolding root_request_def by (rule attempt_not_NoPrincipal [OF assms(2)])
  have n3: "?a3 \<noteq> Inl NoPrincipal"
    unfolding fallback_request_def by (rule attempt_not_NoPrincipal [OF assms(2)])
  have ne: "\<And>h. ?a1 = Inr (Some h) \<or> ?a2 = Inr (Some h) \<or> ?a3 = Inr (Some h) \<Longrightarrow> h \<noteq> []"
    using attempt_nonempty by blast
  have b: "fst (principal cfg parse srv log k) = Inl NoPrincipal
        \<longleftrightarrow> ?a1 = Inr None \<and> ?a2 = Inr None \<and> ?a3 = Inr None"
    using n1 n2 n3 by (auto simp: u split: sum.splits option.splits)
  have c: "\<forall>h. fst (principal cfg parse srv log k) = Inr h \<longrightarrow>
          h \<noteq> []
          \<and> (?a1 = Inr (Some h) \<or> ?a1 = Inr None \<and> ?a2 = Inr (Some h)
             \<or> ?a1 = Inr None \<and> ?a2 = Inr None \<and> ?a3 = Inr (Some h))"
  proof (intro allI impI)
    fix h assume "fst (principal cfg parse srv log k) = Inr h"
    then have "?a1 = Inr (Some h) \<or> ?a1 = Inr None \<and> ?a2 = Inr (Some h)
             \<or> ?a1 = Inr None \<and> ?a2 = Inr None \<and> ?a3 = Inr (Some h)"
      by (auto simp: u split: sum.splits option.splits)
    then show "h \<noteq> []
          \<and> (?a1 = Inr (Some h) \<or> ?a1 = Inr None \<and> ?a2 = Inr (Some h)
             \<or> ?a1 = Inr None \<and> ?a2 = Inr None \<and> ?a3 = Inr (Some h))"
      using ne [of h] by blast
  qed
  show ?thesis
    by (intro conjI) (rule u b c)+
qed

lemma example_parse_simps:
  \<open>example_parse ''<multistatus xmlns="DAV:"/>'' = Some (Element (d_tag ''multistatus'') None [])\<close>
  "example_parse principal_xml = Some principal_doc"
  by (simp_all add: example_parse_def principal_xml_def)

lemma first_text_examples:
  "first_text (Element (d_tag ''multistatus'') None []) principal_xpaths = None"
  "first_text principal_doc principal_xpaths = Some ''/123/principal/''"
proof -
  have s: "strip ''/123/principal/'' = ''/123/principal/''"
    by (simp add: strip_def lstrip_def rstrip_def is_space_def)
  show "first_text (Element (d_tag ''multistatus'') None []) principal_xpaths = None"
    by (simp add: principal_xpaths_def find_text_def find_el_def findall_def descendants_def)
  show "first_text principal_doc principal_xpaths = Some ''/123/principal/''"
    by (simp add: principal_xpaths_def principal_doc_def find_text_def find_el_def findall_def
        descendants_def d_tag_def opt_or_def str_or_def s)
qed

lemma attempt_examples:
  "attempt example_cfg example_parse (script [Inr listed, Inr principal_found]) []
     (wellknown_request example_cfg) = Inr None"
  "attempt example_cfg example_parse (script [Inr listed, Inr principal_found])
     ([] @ [wellknown_request example_cfg]) (root_request example_cfg) = Inr (Some ''/123/principal/'')"
proof -
  show "attempt example_cfg example_parse (script [Inr listed, Inr principal_found]) []
     (wellknown_request example_cfg) = Inr None"
    unfolding wellknown_request_def attempt_propfind [OF ensure_env_example]
    by (simp add: dav_propfind [OF ensure_env_example] script_def listed_def extract_principal_href_def
        parse_xml_def example_parse_simps first_text_examples)
  show "attempt example_cfg example_parse (script [Inr listed, Inr principal_found])
     ([] @ [wellknown_request example_cfg]) (root_request example_cfg) = Inr (Some ''/123/principal/'')"
    unfolding root_request_def attempt_propfind [OF ensure_env_example]
    by (simp add: dav_propfind [OF ensure_env_example] script_def principal_found_def
        extract_principal_href_def parse_xml_def example_parse_simps first_text_examples)
qed

theorem principal_three_attempts_witness:
  "require_key example_cfg None = Inr () \<and> ensure_env example_cfg = Inr ()
   \<and> principal example_cfg example_parse (script [Inr listed, Inr principal_found]) [] None
       = (Inr ''/123/principal/'', [wellknown_request example_cfg, root_request example_cfg])"
proof -
  note t = principal_three_attempts [OF require_key_example ensure_env_example,
      of example_parse "script [Inr listed, Inr principal_found]" "[]", THEN conjunct1]
  have "principal example_cfg example_parse (script [Inr listed, Inr principal_found]) [] None
       = (Inr ''/123/principal/'', [] @ [wellknown_request example_cfg, root_request example_cfg])"
    unfolding t attempt_examples by simp
  then show ?thesis
    using require_key_example ensure_env_example by simp
qed

section \<open>Calendar listing and event query: the operations\<close>

lemma dav_report:
  assumes "ensure_env cfg = Inr ()"
  shows "dav cfg srv log ''REPORT'' u [(''Depth'', ''1'')] (Some b) True
     = (case srv log (report_request cfg u b) of
          Inl e \<Rightarrow> (Inl (RequestFailed e), log @ [report_request cfg u b])
        | Inr r \<Rightarrow>
            if status_code r \<ge> 400
            then (Inl (Upstream (status_code r) (str_or (resp_text r) (reason r))),
                  log @ [report_request cfg u b])
            else (Inr r, log @ [report_request cfg u b]))"
proof -
  have h: "dict_update [(''Content-Type'', ''application/xml; charset=utf-8'')] [(''Depth'', ''1'')]
             = [(''Content-Type'', ''application/xml; charset=utf-8''), (''Depth'', ''1'')]"
    by (simp add: dict_update_def)
  show ?thesis
    using assms by (simp add: dav_def report_request_def h Let_def split: sum.splits)
qed

lemma events_answered:
  assumes "require_key cfg k = Inr ()" and "ensure_env cfg = Inr ()"
    and "srv log (report_request cfg (resolve (BASE cfg) (tr_calendar_href tr)) (events_body tr)) = Inr r"
    and "status_code r < 400" and "parse (resp_text r) = Some root"
  shows "events cfg parse srv log tr k
     = (Inr (event_items (findall root [Descendant (d_tag ''response'')]) []),
        log @ [report_request cfg (resolve (BASE cfg) (tr_calendar_href tr)) (events_body tr)])"
  using assms by (simp add: events_def Let_def dav_report parse_xml_def)

text \<open>
  C5 (as amended). The event query returns, in document order, one pair for each
  \<open>response\<close> whose first \<open>href\<close> child and whose first \<open>calendar-data\<close> element both have
  non-empty text once surrounding white space is trimmed, and nothing for the others: a pair
  (h, d) is in the result if and only if some response has the trimmed href h and the trimmed
  document d, both non-empty. When the API key is accepted, the credentials are configured
  and the server answers the REPORT with a status below 400 and a well-formed document,
  \<open>events\<close> returns exactly these pairs after that one request.
\<close>

theorem event_query_pairs:
  "event_items (findall root [Descendant (d_tag ''response'')]) []
     = map event_entry (filter is_event_entry (findall root [Descendant (d_tag ''response'')]))
   \<and> ((h, d) \<in> set (event_items (findall root [Descendant (d_tag ''response'')]) [])
        \<longleftrightarrow> (\<exists>resp \<in> set (findall root [Descendant (d_tag ''response'')]).
               href_text resp = Some h \<and> h \<noteq> [] \<and> calendar_data_text resp = Some d \<and> d \<noteq> []))
   \<and> (require_key cfg k = Inr () \<and> ensure_env cfg = Inr ()
        \<and> srv log (report_request cfg (resolve (BASE cfg) (tr_calendar_href tr)) (events_body tr)) = Inr r
        \<and> status_code r < 400 \<and> parse (resp_text r) = Some root
      \<longrightarrow> events cfg parse srv log tr k
            = (Inr (map event_entry (filter is_event_entry (findall root [Descendant (d_tag ''response'')]))),
               log @ [report_request cfg (resolve (BASE cfg) (tr_calendar_href tr)) (events_body tr)]))"
proof -
  let ?rs = "findall root [Descendant (d_tag ''response'')]"
  have items: "event_items ?rs [] = map event_entry (filter is_event_entry ?rs)"
    using event_items_acc [of ?rs "[]"] by simp
  have "(h, d) \<in> set (map event_entry (filter is_event_entry ?rs))
        \<longleftrightarrow> (\<exists>resp \<in> set ?rs.
               href_text resp = Some h \<and> h \<noteq> [] \<and> calendar_data_text resp = Some d \<and> d \<noteq> [])"
    by (auto simp: is_event_entry_def event_entry_def image_iff)
  then have member: "(h, d) \<in> set (event_items ?rs [])
        \<longleftrightarrow> (\<exists>resp \<in> set ?rs.
               href_text resp = Some h \<and> h \<noteq> [] \<and> calendar_data_text resp = Some d \<and> d \<noteq> [])"
    by (simp only: items)
  have op: "require_key cfg k = Inr () \<and> ensure_env cfg = Inr ()
        \<and> srv log (report_request cfg (resolve (BASE cfg) (tr_calendar_href tr)) (events_body tr)) = Inr r
        \<and> status_code r < 400 \<and> parse (resp_text r) = Some root
      \<longrightarrow> events cfg parse srv log tr k
            = (Inr (map event_entry (filter is_event_entry ?rs)),
               log @ [report_request cfg (resolve (BASE cfg) (tr_calendar_href tr)) (events_body tr)])"
    using events_answered [of cfg k srv log tr r parse root] by (simp add: items)
  show ?thesis
    by (intro conjI) (rule items member op)+
qed

lemma event_entry_facts:
  "is_event_entry event_response" "\<not> is_event_entry no_data_response"
  "\<not> is_event_entry empty_href_event_response"
  "href_text empty_href_event_response = Some []" "calendar_data_text no_data_response = None"
  "event_entry event_response = (''/123/calendars/work/ABC.ics'', ''BEGIN:VCALENDAR'' @ CRLF @ ''END:VCALENDAR'')"
  by (simp_all add: is_event_entry_def event_entry_def href_text_def calendar_data_text_def no_data_response_def
      empty_href_event_response_def event_response_def find_el_def findall_def
      descendants_def d_tag_def c_tag_def strip_sample_ics opt_or_def str_or_def strip_examples CRLF_def)

theorem event_query_pairs_witness:
  "require_key example_cfg None = Inr () \<and> ensure_env example_cfg = Inr ()
   \<and> events_parse (resp_text events_found) = Some events_doc
   \<and> events example_cfg events_parse (respond events_found) [] new_year None
       = (Inr [(''/123/calendars/work/ABC.ics'', ''BEGIN:VCALENDAR'' @ CRLF @ ''END:VCALENDAR'')],
          [report_request example_cfg ''https://caldav.icloud.com/123/calendars/work/'' (events_body new_year)])
   \<and> filter is_event_entry (findall events_doc [Descendant (d_tag ''response'')]) = [event_response]
   \<and> href_text empty_href_event_response = Some []
   \<and> calendar_data_text no_data_response = None"
proof -
  have u: "resolve (BASE example_cfg) (tr_calendar_href new_year) = ''https://caldav.icloud.com/123/calendars/work/''"
    by (simp add: new_year_def resolve_def startswith_any_def example_cfg_simps)
  have p: "events_parse (resp_text events_found) = Some events_doc"
    by (simp add: events_parse_def events_found_def)
  have f: "filter is_event_entry (findall events_doc [Descendant (d_tag ''response'')]) = [event_response]"
    unfolding findall_events_doc using event_entry_facts(1-3) by simp
  have a: "respond events_found [] (report_request example_cfg (resolve (BASE example_cfg) (tr_calendar_href new_year))
             (events_body new_year)) = Inr events_found"
    by (simp add: respond_def)
  have st: "status_code events_found < 400" by (simp add: events_found_def)
  note t = event_query_pairs [of events_doc _ _ example_cfg None "respond events_found" "[]" new_year
      events_found events_parse, THEN conjunct2, THEN conjunct2, rule_format,
      OF conjI [OF require_key_example conjI [OF ensure_env_example conjI [OF a conjI [OF st p]]]]]
  have e: "events example_cfg events_parse (respond events_found) [] new_year None
       = (Inr [(''/123/calendars/work/ABC.ics'', ''BEGIN:VCALENDAR'' @ CRLF @ ''END:VCALENDAR'')],
          [report_request example_cfg ''https://caldav.icloud.com/123/calendars/work/'' (events_body new_year)])"
    unfolding t f u by (simp add: event_entry_facts(6))
  from require_key_example ensure_env_example p e f event_entry_facts(4,5) show ?thesis by blast
qed

text \<open>
  Three responses that each hold an \<open>href\<close> child and a \<open>calendar-data\<close> element with
  non-empty text: one with an empty href, one whose document is white space only, one whose
  first href is empty and whose second is not. The query returns no pair.
\<close>

lemma dropped_events_facts:
  "findall dropped_events_doc [Descendant (d_tag ''response'')]
     = [empty_href_event_response, blank_data_response, second_href_response]"
  "has_href_and_nonempty_data empty_href_event_response"
  "has_href_and_nonempty_data blank_data_response"
  "has_href_and_nonempty_data second_href_response"
  "event_items [empty_href_event_response, blank_data_response, second_href_response] [] = []"
proof -
  have s: "strip [CHR 0x20, LF] = []" "strip ''/123/calendars/work/GHI.ics'' = ''/123/calendars/work/GHI.ics''"
    by (simp_all add: strip_def lstrip_def rstrip_def is_space_def LF_def)
  show "findall dropped_events_doc [Descendant (d_tag ''response'')]
     = [empty_href_event_response, blank_data_response, second_href_response]"
    by (simp add: findall_def dropped_events_doc_def descendants_def empty_href_event_response_def
        blank_data_response_def second_href_response_def d_tag_def c_tag_def)
  show "has_href_and_nonempty_data empty_href_event_response"
    by (simp add: has_href_and_nonempty_data_def empty_href_event_response_def find_el_def findall_def
        descendants_def d_tag_def c_tag_def opt_or_def str_or_def)
  show "has_href_and_nonempty_data blank_data_response"
    by (simp add: has_href_and_nonempty_data_def blank_data_response_def find_el_def findall_def
        descendants_def d_tag_def c_tag_def opt_or_def str_or_def)
  show "has_href_and_nonempty_data second_href_response"
    by (simp add: has_href_and_nonempty_data_def second_href_response_def find_el_def findall_def
        descendants_def d_tag_def c_tag_def opt_or_def str_or_def)
  show "event_items [empty_href_event_response, blank_data_response, second_href_response] [] = []"
    by (simp add: empty_href_event_response_def blank_data_response_def second_href_response_def
        find_el_def findall_def descendants_def d_tag_def c_tag_def opt_or_def str_or_def s strip_examples)
qed

theorem dropped_events_counterexample:
  "length (filter has_href_and_nonempty_data (findall dropped_events_doc [Descendant (d_tag ''response'')])) = 3
   \<and> event_items (findall dropped_events_doc [Descendant (d_tag ''response'')]) [] = []"
proof -
  have "filter has_href_and_nonempty_data [empty_href_event_response, blank_data_response, second_href_response]
          = [empty_href_event_response, blank_data_response, second_href_response]"
    using dropped_events_facts(2-4) by simp
  then show ?thesis
    unfolding dropped_events_facts(1) dropped_events_facts(5) by simp
qed

lemma calendars_answered:
  assumes "require_key cfg k = Inr ()" and "home cfg parse srv log0 k = (Inr h, log)"
    and "list_with_retry cfg srv log h = (Inr res, log')" and "parse res = Some root"
  shows "calendars cfg parse srv log0 k
     = (Inr (h, calendar_items (findall root [Descendant (d_tag ''response'')]) []), log')"
  using assms by (simp add: calendars_def parse_xml_def)

lemma listing_parse_simps:
  "listing_parse principal_xml = Some principal_doc"
  "listing_parse home_xml = Some home_doc"
  "listing_parse scenario_b_xml = Some scenario_b_doc"
  by (simp_all add: listing_parse_def principal_xml_def home_xml_def scenario_b_xml_def)

lemma principal_listing_server:
  "principal example_cfg listing_parse listing_server [] None
     = (Inr ''/123/principal/'', [wellknown_request example_cfg])"
proof -
  have a: "attempt example_cfg listing_parse listing_server [] (wellknown_request example_cfg)
             = Inr (Some ''/123/principal/'')"
    unfolding wellknown_request_def attempt_propfind [OF ensure_env_example]
    by (simp add: dav_propfind [OF ensure_env_example] listing_server_def script_def principal_found_def
        extract_principal_href_def parse_xml_def listing_parse_simps first_text_examples)
  show ?thesis
    unfolding principal_unfold [OF require_key_example ensure_env_example] a by simp
qed

lemma home_listing_server:
  "home example_cfg listing_parse listing_server [] None
     = (Inr ''/123/calendars/'',
        [wellknown_request example_cfg,
         propfind_request example_cfg ''https://caldav.icloud.com/123/principal/'' ''0'' home_body])"
proof -
  have s: "strip ''/123/calendars/'' = ''/123/calendars/''"
    by (simp add: strip_def lstrip_def rstrip_def is_space_def)
  have f: "find_text home_doc [Descendant (c_tag ''calendar-home-set''), Child (d_tag ''href'')]
             = Some ''/123/calendars/''"
    by (simp add: home_doc_def find_text_def find_el_def findall_def descendants_def d_tag_def c_tag_def
        opt_or_def str_or_def s)
  have d: "dav example_cfg listing_server [wellknown_request example_cfg] ''PROPFIND''
             (BASE example_cfg @ ''/123/principal/'') [(''Depth'', ''0'')] (Some home_body) True
           = (Inr home_found,
              [wellknown_request example_cfg,
               propfind_request example_cfg ''https://caldav.icloud.com/123/principal/'' ''0'' home_body])"
    by (simp add: dav_propfind [OF ensure_env_example] listing_server_def script_def home_found_def
        example_cfg_simps)
  show ?thesis
    by (simp add: home_def require_key_example principal_listing_server d home_found_def parse_xml_def
        listing_parse_simps f opt_or_def str_or_def)
qed

lemma list_listing_server:
  "list_with_retry example_cfg listing_server
     [wellknown_request example_cfg,
      propfind_request example_cfg ''https://caldav.icloud.com/123/principal/'' ''0'' home_body]
     ''/123/calendars/''
   = (Inr scenario_b_xml,
      [wellknown_request example_cfg,
       propfind_request example_cfg ''https://caldav.icloud.com/123/principal/'' ''0'' home_body,
       propfind_request example_cfg ''https://caldav.icloud.com/123/calendars/'' ''1'' calendars_body])"
proof -
  have u: "resolve (BASE example_cfg) ''/123/calendars/'' = ''https://caldav.icloud.com/123/calendars/''"
    by (simp add: resolve_def startswith_any_def example_cfg_simps)
  show ?thesis
    by (simp add: list_with_retry_def do_list_outcome [OF ensure_env_example] u listing_server_def script_def
        calendars_found_def)
qed

text \<open>
  C4 (as amended). For a multistatus document with N \<open>response\<close> elements, calendar listing
  returns one entry for each response whose first \<open>href\<close> child has non-empty trimmed text
  and which has a \<open>displayname\<close> element below it (the first one gives the name, which may be
  empty), in document order: M entries with M at most N. The other responses are skipped; the
  iteration raises nothing. When the API key is accepted, the home is found, the listing
  request is answered and the answer is well-formed, \<open>calendars\<close> returns the home and exactly
  these entries.
\<close>

theorem calendar_listing_entries:
  "calendar_items (findall root [Descendant (d_tag ''response'')]) []
     = map calendar_entry (filter is_calendar_entry (findall root [Descendant (d_tag ''response'')]))
   \<and> length (calendar_items (findall root [Descendant (d_tag ''response'')]) [])
       = length (filter is_calendar_entry (findall root [Descendant (d_tag ''response'')]))
   \<and> length (filter is_calendar_entry (findall root [Descendant (d_tag ''response'')]))
       \<le> length (findall root [Descendant (d_tag ''response'')])
   \<and> (require_key cfg k = Inr () \<and> home cfg parse srv log0 k = (Inr h, log)
        \<and> list_with_retry cfg srv log h = (Inr res, log') \<and> parse res = Some root
      \<longrightarrow> calendars cfg parse srv log0 k
            = (Inr (h, map calendar_entry
                         (filter is_calendar_entry (findall root [Descendant (d_tag ''response'')]))),
               log'))"
proof -
  let ?rs = "findall root [Descendant (d_tag ''response'')]"
  have items: "calendar_items ?rs [] = map calendar_entry (filter is_calendar_entry ?rs)"
    using calendar_items_acc [of ?rs "[]"] by simp
  then have count: "length (calendar_items ?rs []) = length (filter is_calendar_entry ?rs)"
    by simp
  have bound: "length (filter is_calendar_entry ?rs) \<le> length ?rs"
    by (rule length_filter_le)
  have op: "require_key cfg k = Inr () \<and> home cfg parse srv log0 k = (Inr h, log)
        \<and> list_with_retry cfg srv log h = (Inr res, log') \<and> parse res = Some root
      \<longrightarrow> calendars cfg parse srv log0 k
            = (Inr (h, map calendar_entry (filter is_calendar_entry ?rs)), log')"
    using calendars_answered [of cfg k parse srv log0 h log res log' root] by (simp add: items)
  show ?thesis
    by (intro conjI) (rule items count bound op)+
qed

lemma calendar_entry_facts:
  "is_calendar_entry work_response" "\<not> is_calendar_entry unnamed_response"
  "calendar_entry work_response = (''/123/calendars/work/'', ''Work'')"
  by (simp_all add: is_calendar_entry_def calendar_entry_def href_text_def displayname_text_def
      work_response_def unnamed_response_def find_el_def findall_def descendants_def d_tag_def
      opt_or_def str_or_def strip_examples)

theorem calendar_listing_entries_witness:
  "require_key example_cfg None = Inr ()
   \<and> home example_cfg listing_parse listing_server [] None
       = (Inr ''/123/calendars/'',
          [wellknown_request example_cfg,
           propfind_request example_cfg ''https://caldav.icloud.com/123/principal/'' ''0'' home_body])
   \<and> listing_parse scenario_b_xml = Some scenario_b_doc
   \<and> calendars example_cfg listing_parse listing_server [] None
       = (Inr (''/123/calendars/'', [(''/123/calendars/work/'', ''Work'')]),
          [wellknown_request example_cfg,
           propfind_request example_cfg ''https://caldav.icloud.com/123/principal/'' ''0'' home_body,
           propfind_request example_cfg ''https://caldav.icloud.com/123/calendars/'' ''1'' calendars_body])
   \<and> length (filter is_calendar_entry (findall scenario_b_doc [Descendant (d_tag ''response'')])) = 1
   \<and> length (findall scenario_b_doc [Descendant (d_tag ''response'')]) = 2"
proof -
  have f: "filter is_calendar_entry (findall scenario_b_doc [Descendant (d_tag ''response'')]) = [work_response]"
    unfolding findall_scenario_b using calendar_entry_facts(1,2) by simp
  note t = calendar_listing_entries [of scenario_b_doc example_cfg None listing_parse listing_server "[]"
      "''/123/calendars/''" _ scenario_b_xml _, THEN conjunct2, THEN conjunct2, THEN conjunct2, rule_format,
      OF conjI [OF require_key_example conjI [OF home_listing_server
            conjI [OF list_listing_server listing_parse_simps(3)]]]]
  have c: "calendars example_cfg listing_parse listing_server [] None
       = (Inr (''/123/calendars/'', [(''/123/calendars/work/'', ''Work'')]),
          [wellknown_request example_cfg,
           propfind_request example_cfg ''https://caldav.icloud.com/123/principal/'' ''0'' home_body,
           propfind_request example_cfg ''https://caldav.icloud.com/123/calendars/'' ''1'' calendars_body])"
    unfolding t f by (simp add: calendar_entry_facts(3))
  have n1: "length (filter is_calendar_entry (findall scenario_b_doc [Descendant (d_tag ''response'')])) = 1"
    unfolding f by simp
  have n2: "length (findall scenario_b_doc [Descendant (d_tag ''response'')]) = 2"
    unfolding findall_scenario_b by simp
  from require_key_example home_listing_server listing_parse_simps(3) c n1 n2 show ?thesis by blast
qed

end
